theory Spec2Isabelle
  imports Main "HOL-Library.Char_ord" "HOL-Library.List_Lexorder" "HOL-Library.Sublist"
begin

section \<open>Python strings\<close>

text \<open>
  A Python \<open>str\<close> is modelled as a \<open>string\<close> whose characters are the code points
  U+0000 to U+00FF (Latin-1): every literal of \<open>services.py\<close>, accented ones included,
  lies in that range. The string methods below are the Latin-1 restrictions of the
  Python ones.
\<close>

definition cp :: "char \<Rightarrow> nat" where
  "cp c = of_char c"

definition py_lower_char :: "char \<Rightarrow> char" where
  "py_lower_char c =
     (if (65 \<le> cp c \<and> cp c \<le> 90) \<or> (192 \<le> cp c \<and> cp c \<le> 222 \<and> cp c \<noteq> 215)
      then char_of (cp c + 32) else c)"

definition py_lower :: "string \<Rightarrow> string" where
  "py_lower s = map py_lower_char s"

definition py_isspace :: "char \<Rightarrow> bool" where
  "py_isspace c = ((9 \<le> cp c \<and> cp c \<le> 13) \<or> (28 \<le> cp c \<and> cp c \<le> 32) \<or> cp c = 133 \<or> cp c = 160)"

definition py_isdigit_char :: "char \<Rightarrow> bool" where
  "py_isdigit_char c = ((48 \<le> cp c \<and> cp c \<le> 57) \<or> cp c = 178 \<or> cp c = 179 \<or> cp c = 185)"

definition py_isdigit :: "string \<Rightarrow> bool" where
  "py_isdigit s = (s \<noteq> [] \<and> list_all py_isdigit_char s)"

definition py_strip :: "string \<Rightarrow> string" where
  "py_strip s = rev (dropWhile py_isspace (rev (dropWhile py_isspace s)))"

text \<open>\<open>s.replace(c, "")\<close> for a one-character \<open>c\<close>.\<close>

definition py_remove :: "char \<Rightarrow> string \<Rightarrow> string" where
  "py_remove c s = filter (\<lambda>x. x \<noteq> c) s"


section \<open>Dates and times of the \<open>datetime\<close> module\<close>

text \<open>
  A \<open>date\<close> is its proleptic Gregorian ordinal (\<open>date.toordinal()\<close>, 1 for 0001-01-01),
  a \<open>time\<close> with whole minutes is the number of minutes since midnight, and a
  \<open>datetime\<close> is a date with a time. The arithmetic follows \<open>Lib/_pydatetime.py\<close>.
\<close>

definition MAXORDINAL :: int where
  "MAXORDINAL = 3652059"

definition is_leap :: "int \<Rightarrow> bool" where
  "is_leap y = (y mod 4 = 0 \<and> (y mod 100 \<noteq> 0 \<or> y mod 400 = 0))"

definition days_before_year :: "int \<Rightarrow> int" where
  "days_before_year year = (let y = year - 1 in y * 365 + y div 4 - y div 100 + y div 400)"

definition DAYS_IN_MONTH :: "int list" where
  "DAYS_IN_MONTH = [0, 31, 28, 31, 30, 31, 30, 31, 31, 30, 31, 30, 31]"

definition DAYS_BEFORE_MONTH :: "int list" where
  "DAYS_BEFORE_MONTH = [0, 0, 31, 59, 90, 120, 151, 181, 212, 243, 273, 304, 334]"

definition days_in_month :: "int \<Rightarrow> int \<Rightarrow> int" where
  "days_in_month year month =
     (if month = 2 \<and> is_leap year then 29 else DAYS_IN_MONTH ! nat month)"

definition days_before_month :: "int \<Rightarrow> int \<Rightarrow> int" where
  "days_before_month year month =
     DAYS_BEFORE_MONTH ! nat month + (if month > 2 \<and> is_leap year then 1 else 0)"

definition ymd2ord :: "int \<Rightarrow> int \<Rightarrow> int \<Rightarrow> int" where
  "ymd2ord year month day = days_before_year year + days_before_month year month + day"

definition ord2ymd :: "int \<Rightarrow> int \<times> int \<times> int" where
  "ord2ymd n0 =
     (let n = n0 - 1;
          n400 = n div 146097; n = n mod 146097;
          year = n400 * 400 + 1;
          n100 = n div 36524; n = n mod 36524;
          n4 = n div 1461; n = n mod 1461;
          n1 = n div 365; n = n mod 365;
          year = year + n100 * 100 + n4 * 4 + n1
      in if n1 = 4 \<or> n100 = 4 then (year - 1, 12, 31)
         else
           (let leapyear = (n1 = 3 \<and> (n4 \<noteq> 24 \<or> n100 = 3));
                month = (n + 50) div 32;
                preceding = DAYS_BEFORE_MONTH ! nat month + (if month > 2 \<and> leapyear then 1 else 0)
            in if preceding > n
               then (let month' = month - 1;
                         preceding' = preceding - (DAYS_IN_MONTH ! nat month'
                                        + (if month' = 2 \<and> leapyear then 1 else 0))
                     in (year, month', n - preceding' + 1))
               else (year, month, n - preceding + 1)))"


definition digit_char :: "int \<Rightarrow> char" where
  "digit_char n = char_of (nat (48 + n mod 10))"

definition fmt02 :: "int \<Rightarrow> string" where
  "fmt02 n = [digit_char (n div 10), digit_char n]"

definition fmt04 :: "int \<Rightarrow> string" where
  "fmt04 n = [digit_char (n div 1000), digit_char (n div 100), digit_char (n div 10), digit_char n]"

text \<open>\<open>date.isoformat()\<close>, \<open>YYYY-MM-DD\<close>.\<close>

definition isoformat :: "int \<Rightarrow> string" where
  "isoformat d = (case ord2ymd d of (y, m, dd) \<Rightarrow> fmt04 y @ ''-'' @ fmt02 m @ ''-'' @ fmt02 dd)"

text \<open>\<open>time.strftime("%H:%M")\<close> of a time given in minutes since midnight.\<close>

definition strftime_HM :: "nat \<Rightarrow> string" where
  "strftime_HM t = fmt02 (int (t div 60)) @ '':'' @ fmt02 (int (t mod 60))"

subsection \<open>\<open>strptime\<close>\<close>

text \<open>
  \<open>datetime.strptime\<close> compiles the format to a regular expression that must match the
  whole string: \<open>%Y\<close> is \<open>\d\d\d\d\<close>, \<open>%m\<close> is \<open>1[0-2]|0[1-9]|[1-9]\<close>, \<open>%d\<close> is
  \<open>3[01]|[12]\d|0[1-9]|[1-9]| [1-9]\<close>, \<open>%H\<close> is \<open>2[0-3]|[0-1]\d|\d\<close> and \<open>%M\<close> is
  \<open>[0-5]\d|\d\<close>. Digits are the ASCII digits here.
\<close>

definition is_digit :: "char \<Rightarrow> bool" where
  "is_digit c = (48 \<le> cp c \<and> cp c \<le> 57)"

definition dval :: "char \<Rightarrow> int" where
  "dval c = int (cp c) - 48"

text \<open>Each field parser returns the value read and the rest of the string.\<close>

fun re_Y :: "string \<Rightarrow> (int \<times> string) option" where
  "re_Y (a # b # c # d # r) =
     (if is_digit a \<and> is_digit b \<and> is_digit c \<and> is_digit d
      then Some (dval a * 1000 + dval b * 100 + dval c * 10 + dval d, r) else None)"
| "re_Y _ = None"

fun re_one :: "(int \<Rightarrow> bool) \<Rightarrow> string \<Rightarrow> (int \<times> string) option" where
  "re_one ok (a # r) = (if is_digit a \<and> ok (dval a) then Some (dval a, r) else None)"
| "re_one ok [] = None"

fun re_two :: "(int \<Rightarrow> bool) \<Rightarrow> string \<Rightarrow> (int \<times> string) option" where
  "re_two ok (a # b # r) =
     (if is_digit a \<and> is_digit b \<and> ok (dval a * 10 + dval b)
      then Some (dval a * 10 + dval b, r) else None)"
| "re_two ok _ = None"

text \<open>
  An alternative of two digits is tried before the one-digit alternative; the regular
  expression backtracks into the latter when what follows does not match.
\<close>

definition re_m :: "string \<Rightarrow> (int \<times> string) list" where
  "re_m s = List.map_filter id [re_two (\<lambda>v. 1 \<le> v \<and> v \<le> 12) s, re_one (\<lambda>v. 1 \<le> v) s]"

definition re_d :: "string \<Rightarrow> (int \<times> string) list" where
  "re_d s = List.map_filter id
     [re_two (\<lambda>v. 1 \<le> v \<and> v \<le> 31) s, re_one (\<lambda>v. 1 \<le> v) s,
      (case s of c # r \<Rightarrow> (if c = CHR '' '' then re_one (\<lambda>v. 1 \<le> v) r else None) | [] \<Rightarrow> None)]"

definition re_H :: "string \<Rightarrow> (int \<times> string) list" where
  "re_H s = List.map_filter id [re_two (\<lambda>v. v \<le> 23) s, re_one (\<lambda>v. True) s]"

definition re_M :: "string \<Rightarrow> (int \<times> string) list" where
  "re_M s = List.map_filter id [re_two (\<lambda>v. v \<le> 59) s, re_one (\<lambda>v. True) s]"

definition lit :: "char \<Rightarrow> string \<Rightarrow> string option" where
  "lit c s = (case s of x # r \<Rightarrow> (if x = c then Some r else None) | [] \<Rightarrow> None)"

text \<open>\<open>datetime.strptime(s, "%H:%M").time()\<close>; \<open>None\<close> stands for the \<open>ValueError\<close>.\<close>

definition strptime_HM :: "string \<Rightarrow> nat option" where
  "strptime_HM s =
     (case concat (map (\<lambda>(h, r). case lit CHR '':'' r of None \<Rightarrow> []
                          | Some r' \<Rightarrow> concat (map (\<lambda>(m, r''). if r'' = [] then [nat (h * 60 + m)] else [])
                                                 (re_M r')))
                       (re_H s)) of
        [] \<Rightarrow> None
      | t # _ \<Rightarrow> Some t)"

text \<open>
  \<open>datetime.strptime(s, "%Y-%m-%d").date()\<close>: the first match of the regular expression,
  then the range checks of the \<open>date\<close> constructor.
\<close>

definition strptime_Ymd :: "string \<Rightarrow> int option" where
  "strptime_Ymd s =
     (case re_Y s of None \<Rightarrow> None
      | Some (y, r1) \<Rightarrow>
          (case lit CHR ''-'' r1 of None \<Rightarrow> None
           | Some r2 \<Rightarrow>
               (case concat (map (\<lambda>(m, r3). case lit CHR ''-'' r3 of None \<Rightarrow> []
                                   | Some r4 \<Rightarrow> concat (map (\<lambda>(d, r5). if r5 = [] then [(m, d)] else [])
                                                         (re_d r4)))
                                 (re_m r2)) of
                  [] \<Rightarrow> None
                | (m, d) # _ \<Rightarrow>
                    (if 1 \<le> y \<and> d \<le> days_in_month y m then Some (ymd2ord y m d) else None))))"

section \<open>Documents and collections\<close>

text \<open>
  \<open>models.py\<close> and the documents that \<open>services.py\<close> and \<open>db.py\<close> write. A field that a
  document may lack is an \<open>option\<close>. Timestamps are milliseconds, the resolution of the
  store.
\<close>

datatype StatusConsulta = AGENDADA | CANCELADA | CONCLUIDA

fun status_value :: "StatusConsulta \<Rightarrow> string" where
  "status_value AGENDADA = ''agendada''"
| "status_value CANCELADA = ''cancelada''"
| "status_value CONCLUIDA = ''concluida''"

record medico =
  m_id :: int
  m_nome :: string
  m_crm :: string
  m_especialidade_id :: int

record tipo_exame =
  te_id :: int
  te_descricao :: string

record paciente =
  p_id :: int
  p_nome :: string
  p_cpf :: string

record consulta =
  c_id :: int
  paciente_id :: int
  data :: string
  hora_inicio :: string
  duracao_minutos :: int
  status :: StatusConsulta
  observacoes :: "string option"
  created_at :: nat
  updated_at :: nat
  medico_id :: "int option"
  tipo_exame_id :: "int option"

text \<open>\<open>AgendamentoDetalhado\<close>, the enriched view returned by the tools.\<close>

record AgendamentoDetalhado =
  ad_id :: int
  ad_paciente_id :: int
  ad_data :: string
  ad_hora_inicio :: string
  ad_status :: StatusConsulta
  ad_observacoes :: string
  ad_medico_id :: "int option"
  ad_tipo_exame_id :: "int option"
  nome_medico :: string
  descricao_exame :: string

text \<open>One entry of \<open>SlotsDisponiveis.slots_livres\<close>.\<close>

record slot =
  slot_hora_inicio :: string
  slot_hora_fim :: string

text \<open>
  The collections of \<open>DatabaseService\<close> that the operations below read or write, each in
  its natural (insertion) order.
\<close>

record database =
  medicos_collection :: "medico list"
  consultas_collection :: "consulta list"
  tipos_exame_collection :: "tipo_exame list"
  pacientes_collection :: "paciente list"

text \<open>
  Every failure of \<open>services.py\<close> is a \<open>ValueError\<close> told apart by its message; the
  other exceptions come from the libraries.
\<close>

datatype mensagem =
    CPF_invalido
  | Data_invalida
  | Hora_invalida
  | Exame_nao_simples
  | Exame_nao_encontrado
  | Conflito_de_horario_agendar
  | Consulta_nao_encontrada
  | Conflito_de_horario_reagendar
  | Nao_foi_possivel_reagendar
  | Nao_encontrada_ou_ja_cancelada

datatype erro =
    ValueError mensagem
  | DuplicateKeyError
  | OverflowError
  | ValidationError

subsection \<open>Indexes\<close>

text \<open>
  An index is the list of its keys and its \<open>unique\<close> flag. \<open>criar_collections\<close> of
  \<open>db.py\<close> creates the following ones on the appointment and patient collections; the
  store itself keeps the unique index on \<open>_id\<close>.
\<close>

type_synonym indice = "string list \<times> bool"

datatype valor = VInt int | VStr string | VNull

definition criar_collections_consulta :: "indice list" where
  "criar_collections_consulta = [([''medico_id'', ''data''], False), ([''status''], False)]"

definition criar_collections_paciente :: "indice list" where
  "criar_collections_paciente = [([''cpf''], True)]"

definition opt_valor :: "int option \<Rightarrow> valor" where
  "opt_valor x = (case x of None \<Rightarrow> VNull | Some i \<Rightarrow> VInt i)"

definition campo_consulta :: "string \<Rightarrow> consulta \<Rightarrow> valor" where
  "campo_consulta k c =
     (if k = ''_id'' then VInt (c_id c)
      else if k = ''paciente_id'' then VInt (paciente_id c)
      else if k = ''data'' then VStr (data c)
      else if k = ''hora_inicio'' then VStr (hora_inicio c)
      else if k = ''duracao_minutos'' then VInt (duracao_minutos c)
      else if k = ''status'' then VStr (status_value (status c))
      else if k = ''observacoes'' then (case observacoes c of None \<Rightarrow> VNull | Some s \<Rightarrow> VStr s)
      else if k = ''created_at'' then VInt (int (created_at c))
      else if k = ''updated_at'' then VInt (int (updated_at c))
      else if k = ''medico_id'' then opt_valor (medico_id c)
      else if k = ''tipo_exame_id'' then opt_valor (tipo_exame_id c)
      else VNull)"

definition campo_paciente :: "string \<Rightarrow> paciente \<Rightarrow> valor" where
  "campo_paciente k p =
     (if k = ''_id'' then VInt (p_id p)
      else if k = ''nome'' then VStr (p_nome p)
      else if k = ''cpf'' then VStr (p_cpf p)
      else VNull)"

text \<open>A document collides with a stored one on the keys of some unique index.\<close>

definition chave_duplicada :: "(string \<Rightarrow> 'd \<Rightarrow> valor) \<Rightarrow> indice list \<Rightarrow> 'd list \<Rightarrow> 'd \<Rightarrow> bool" where
  "chave_duplicada campo idx docs d =
     list_ex (\<lambda>(ks, unico). unico \<and> list_ex (\<lambda>x. map (\<lambda>k. campo k x) ks = map (\<lambda>k. campo k d) ks) docs) idx"

subsection \<open>Store operations\<close>

text \<open>\<open>find_one(filter)\<close>: the first document that matches.\<close>

definition find_one :: "('d \<Rightarrow> bool) \<Rightarrow> 'd list \<Rightarrow> 'd option" where
  "find_one P docs = List.find P docs"

text \<open>\<open>find_one(sort=[("_id", -1)])\<close>: the document with the greatest \<open>_id\<close>.\<close>

fun find_one_maior_id :: "('d \<Rightarrow> int) \<Rightarrow> 'd list \<Rightarrow> 'd option" where
  "find_one_maior_id oid [] = None"
| "find_one_maior_id oid (x # xs) =
     (case find_one_maior_id oid xs of
        None \<Rightarrow> Some x
      | Some y \<Rightarrow> if oid y > oid x then Some y else Some x)"

definition insert_one :: "(string \<Rightarrow> 'd \<Rightarrow> valor) \<Rightarrow> indice list \<Rightarrow> 'd list \<Rightarrow> 'd \<Rightarrow> erro + 'd list" where
  "insert_one campo idx docs d =
     (if chave_duplicada campo (([''_id''], True) # idx) docs d then Inl DuplicateKeyError
      else Inr (docs @ [d]))"

text \<open>Replaces the first document that satisfies \<open>P\<close>.\<close>

fun substituir :: "('d \<Rightarrow> bool) \<Rightarrow> 'd \<Rightarrow> 'd list \<Rightarrow> 'd list" where
  "substituir P y [] = []"
| "substituir P y (x # xs) = (if P x then y # xs else x # substituir P y xs)"

fun remover :: "('d \<Rightarrow> bool) \<Rightarrow> 'd list \<Rightarrow> 'd list" where
  "remover P [] = []"
| "remover P (x # xs) = (if P x then xs else x # remover P xs)"

text \<open>
  \<open>update_one(filter, {"$set": ...})\<close>: the first matching document is rewritten by \<open>f\<close>.
  The result is the collection and \<open>modified_count\<close>, which is 0 when nothing matches
  and when the document already holds the values set.
\<close>

definition update_one ::
  "(string \<Rightarrow> 'd \<Rightarrow> valor) \<Rightarrow> indice list \<Rightarrow> ('d \<Rightarrow> bool) \<Rightarrow> ('d \<Rightarrow> 'd) \<Rightarrow> 'd list \<Rightarrow> erro + ('d list \<times> nat)" where
  "update_one campo idx P f docs =
     (case find_one P docs of
        None \<Rightarrow> Inr (docs, 0)
      | Some x \<Rightarrow>
          if f x = x then Inr (docs, 0)
          else if chave_duplicada campo idx (remover P docs) (f x) then Inl DuplicateKeyError
          else Inr (substituir P (f x) docs, 1))"

section \<open>\<open>DatabaseService\<close>\<close>

text \<open>
  An operation that writes takes the database and returns it with its result, also when
  it raises: what was written before the exception stays written. \<open>agora\<close> is the reading
  of \<open>datetime.utcnow()\<close> and \<open>hoje\<close> that of \<open>date.today()\<close>.
\<close>

subsection \<open>Helpers\<close>

definition limpar_e_validar_cpf :: "string \<Rightarrow> erro + string" where
  "limpar_e_validar_cpf cpf_bruto =
     (let cpf_limpo = py_strip (py_remove CHR ''-'' (py_remove CHR ''.'' cpf_bruto))
      in if \<not> py_isdigit cpf_limpo \<or> length cpf_limpo \<noteq> 11 then Inl (ValueError CPF_invalido)
         else Inr cpf_limpo)"

definition obter_ou_criar_paciente :: "database \<Rightarrow> string \<Rightarrow> string \<Rightarrow> (erro + paciente) \<times> database" where
  "obter_ou_criar_paciente db nome_completo cpf =
     (case limpar_e_validar_cpf cpf of
        Inl e \<Rightarrow> (Inl e, db)
      | Inr cpf_limpo \<Rightarrow>
          (case find_one (\<lambda>p. p_cpf p = cpf_limpo) (pacientes_collection db) of
             Some paciente_doc \<Rightarrow> (Inr paciente_doc, db)
           | None \<Rightarrow>
               (let novo_id = (case find_one_maior_id p_id (pacientes_collection db) of
                                 Some maior_id_doc \<Rightarrow> p_id maior_id_doc + 1
                               | None \<Rightarrow> 101);
                    novo_paciente_doc = \<lparr>p_id = novo_id, p_nome = nome_completo, p_cpf = cpf_limpo\<rparr>
                in case insert_one campo_paciente criar_collections_paciente
                          (pacientes_collection db) novo_paciente_doc of
                     Inl e \<Rightarrow> (Inl e, db)
                   | Inr ps \<Rightarrow> (Inr novo_paciente_doc, db\<lparr>pacientes_collection := ps\<rparr>))))"

text \<open>
  A query \<open>{"_id": doc.get(key)}\<close> finds nothing when the document lacks the key.
  \<open>model_validate\<close> rejects a document whose \<open>observacoes\<close> is \<open>None\<close>, the one field of
  \<open>AgendamentoDetalhado\<close> that a stored appointment can hold with another type.
\<close>

definition enriquecer_e_validar_agendamento :: "database \<Rightarrow> consulta option \<Rightarrow> erro + AgendamentoDetalhado option" where
  "enriquecer_e_validar_agendamento db doc_consulta =
     (case doc_consulta of
        None \<Rightarrow> Inr None
      | Some doc \<Rightarrow>
          (let medico_doc = (case medico_id doc of None \<Rightarrow> None
                             | Some m \<Rightarrow> find_one (\<lambda>d. m_id d = m) (medicos_collection db));
               exame_doc = (case tipo_exame_id doc of None \<Rightarrow> None
                            | Some t \<Rightarrow> find_one (\<lambda>d. te_id d = t) (tipos_exame_collection db));
               nm = (case medico_doc of Some d \<Rightarrow> m_nome d | None \<Rightarrow> ''N/A (Apenas Exame)'');
               de = (case exame_doc of Some d \<Rightarrow> te_descricao d | None \<Rightarrow> ''Consulta de Rotina'')
           in case observacoes doc of
                None \<Rightarrow> Inl ValidationError
              | Some obs \<Rightarrow>
                  Inr (Some \<lparr>ad_id = c_id doc, ad_paciente_id = paciente_id doc, ad_data = data doc,
                             ad_hora_inicio = hora_inicio doc, ad_status = status doc,
                             ad_observacoes = obs, ad_medico_id = medico_id doc,
                             ad_tipo_exame_id = tipo_exame_id doc,
                             nome_medico = nm, descricao_exame = de\<rparr>)))"

text \<open>Python's truth value of an optional integer argument: \<open>None\<close> and 0 are false.\<close>

definition truthy :: "int option \<Rightarrow> bool" where
  "truthy x = (case x of None \<Rightarrow> False | Some i \<Rightarrow> i \<noteq> 0)"

subsection \<open>Availability\<close>

text \<open>
  One element of \<open>horarios_ocupados\<close>: the start time and the time of day at which the
  appointment ends. The \<open>strptime\<close> of a stored \<open>hora_inicio\<close> may raise, and so may the
  sum with the \<open>timedelta\<close> when it leaves the range of \<open>datetime\<close>.
\<close>

definition horario_ocupado :: "int \<Rightarrow> consulta \<Rightarrow> erro + (nat \<times> nat)" where
  "horario_ocupado data_consulta c =
     (case strptime_HM (hora_inicio c) of
        None \<Rightarrow> Inl (ValueError Hora_invalida)
      | Some inicio \<Rightarrow>
          (let t = (data_consulta - 1) * 1440 + int inicio + duracao_minutos c
           in if 0 \<le> t \<and> t < MAXORDINAL * 1440 then Inr (inicio, nat (t mod 1440))
              else Inl OverflowError))"

fun horarios_ocupados :: "int \<Rightarrow> consulta list \<Rightarrow> erro + (nat \<times> nat) list" where
  "horarios_ocupados data_consulta [] = Inr []"
| "horarios_ocupados data_consulta (c # cs) =
     (case horario_ocupado data_consulta c of
        Inl e \<Rightarrow> Inl e
      | Inr h \<Rightarrow> (case horarios_ocupados data_consulta cs of
                    Inl e \<Rightarrow> Inl e
                  | Inr hs \<Rightarrow> Inr (h # hs)))"

definition sobrepoe :: "nat \<Rightarrow> nat \<Rightarrow> (nat \<times> nat) list \<Rightarrow> bool" where
  "sobrepoe inicio_slot fim_slot ocupados =
     list_ex (\<lambda>(inicio, fim). inicio_slot < fim \<and> fim_slot > inicio) ocupados"

text \<open>
  The \<open>while\<close> loop. \<open>slot_atual\<close> is counted in minutes from midnight of the day asked
  for; the slots come out in the order in which the loop appends them.
\<close>

function slots_livres :: "(nat \<times> nat) list \<Rightarrow> nat \<Rightarrow> slot list" where
  "slots_livres ocupados slot_atual =
     (if slot_atual mod 1440 < 1080
      then (let inicio_slot = slot_atual mod 1440;
                fim_slot = (slot_atual + 30) mod 1440
            in (if \<not> sobrepoe inicio_slot fim_slot ocupados
                then [\<lparr>slot_hora_inicio = strftime_HM inicio_slot, slot_hora_fim = strftime_HM fim_slot\<rparr>]
                else [])
               @ slots_livres ocupados (slot_atual + 30))
      else [])"
  by pat_completeness auto
termination
proof (relation "measure (\<lambda>(ocupados, slot_atual). 1080 - slot_atual mod 1440)", goal_cases)
  case 1
  show ?case by simp
next
  case (2 ocupados slot_atual x xa)
  have "(slot_atual + 30) mod 1440 = (slot_atual mod 1440 + 30) mod 1440"
    by (simp add: mod_add_left_eq)
  also have "\<dots> = slot_atual mod 1440 + 30"
    using 2(1) by (intro mod_less) linarith
  finally show ?case
    using 2(1) by simp
qed

definition consultas_agendadas :: "database \<Rightarrow> int \<Rightarrow> string \<Rightarrow> consulta list" where
  "consultas_agendadas db medico data_str =
     filter (\<lambda>c. medico_id c = Some medico \<and> data c = data_str \<and> status c = AGENDADA)
       (consultas_collection db)"

definition verificar_disponibilidade_medico :: "database \<Rightarrow> int \<Rightarrow> string \<Rightarrow> erro + slot list" where
  "verificar_disponibilidade_medico db medico data_str =
     (case strptime_Ymd data_str of
        None \<Rightarrow> Inl (ValueError Data_invalida)
      | Some data_consulta \<Rightarrow>
          (case horarios_ocupados data_consulta (consultas_agendadas db medico data_str) of
             Inl e \<Rightarrow> Inl e
           | Inr ocupados \<Rightarrow> Inr (slots_livres ocupados 480)))"

subsection \<open>Relative dates\<close>





subsection \<open>Booking\<close>

definition agendar_consulta ::
  "database \<Rightarrow> nat \<Rightarrow> int \<Rightarrow> string \<Rightarrow> string \<Rightarrow> int option \<Rightarrow> int option \<Rightarrow> string option
   \<Rightarrow> (erro + AgendamentoDetalhado option) \<times> database" where
  "agendar_consulta db agora paciente data_str hora_inicio_str medico tipo_exame obs =
     (let novo_id = (case find_one_maior_id c_id (consultas_collection db) of
                       Some maior_id_doc \<Rightarrow> c_id maior_id_doc + 1
                     | None \<Rightarrow> 123);
          nova_consulta =
            \<lparr>c_id = novo_id, paciente_id = paciente, data = data_str, hora_inicio = hora_inicio_str,
             duracao_minutos = 30, status = AGENDADA, observacoes = obs,
             created_at = agora, updated_at = agora,
             medico_id = (if truthy medico then medico else None),
             tipo_exame_id = (if truthy tipo_exame then tipo_exame else None)\<rparr>
      in case insert_one campo_consulta criar_collections_consulta (consultas_collection db) nova_consulta of
           Inl DuplicateKeyError \<Rightarrow> (Inl (ValueError Conflito_de_horario_agendar), db)
         | Inl e \<Rightarrow> (Inl e, db)
         | Inr cs \<Rightarrow>
             (let db' = db\<lparr>consultas_collection := cs\<rparr>;
                  consulta_criada = find_one (\<lambda>c. c_id c = novo_id) (consultas_collection db')
              in (enriquecer_e_validar_agendamento db' consulta_criada, db')))"

definition EXAMES_SEM_ESPECIALISTA :: "string list" where
  "EXAMES_SEM_ESPECIALISTA = [''exame de sangue'', ''raio-x'']"

text \<open>
  The query \<open>{"descricao": {"$regex": "^nome$", "$options": "i"}}\<close> for a name that passed
  the whitelist, which has no character special to regular expressions: the description
  is the name up to the case of letters, and \<open>$\<close> also matches before a final newline.
\<close>

definition regex_exato_i :: "string \<Rightarrow> string \<Rightarrow> bool" where
  "regex_exato_i nome descricao =
     (py_lower descricao = py_lower nome \<or> py_lower descricao = py_lower nome @ [CHR 0x0A])"

definition agendar_exame_simples ::
  "database \<Rightarrow> nat \<Rightarrow> string \<Rightarrow> string \<Rightarrow> string \<Rightarrow> string \<Rightarrow> string
   \<Rightarrow> (erro + AgendamentoDetalhado option) \<times> database" where
  "agendar_exame_simples db agora nome_paciente cpf_paciente data_str hora_inicio_str nome_exame =
     (if py_lower nome_exame \<notin> set EXAMES_SEM_ESPECIALISTA then (Inl (ValueError Exame_nao_simples), db)
      else
        (case obter_ou_criar_paciente db nome_paciente cpf_paciente of
           (Inl e, db') \<Rightarrow> (Inl e, db')
         | (Inr paciente, db') \<Rightarrow>
             (case find_one (\<lambda>d. regex_exato_i nome_exame (te_descricao d)) (tipos_exame_collection db') of
                None \<Rightarrow> (Inl (ValueError Exame_nao_encontrado), db')
              | Some exame_doc \<Rightarrow>
                  agendar_consulta db' agora (p_id paciente) data_str hora_inicio_str None
                    (Some (te_id exame_doc)) (Some (''Exame: '' @ nome_exame)))))"

subsection \<open>Listing\<close>

fun enriquecer_todos :: "database \<Rightarrow> consulta list \<Rightarrow> erro + AgendamentoDetalhado option list" where
  "enriquecer_todos db [] = Inr []"
| "enriquecer_todos db (c # cs) =
     (case enriquecer_e_validar_agendamento db (Some c) of
        Inl e \<Rightarrow> Inl e
      | Inr a \<Rightarrow> (case enriquecer_todos db cs of
                    Inl e \<Rightarrow> Inl e
                  | Inr as \<Rightarrow> Inr (a # as)))"

text \<open>
  The test \<open>isinstance(paciente, dict)\<close> is false for the \<open>Paciente\<close> that the helper
  returns, so its branch never runs. Documents with equal dates keep their stored order.
\<close>

definition ver_minhas_consultas ::
  "database \<Rightarrow> int \<Rightarrow> string \<Rightarrow> (erro + AgendamentoDetalhado option list) \<times> database" where
  "ver_minhas_consultas db hoje cpf_paciente =
     (case obter_ou_criar_paciente db ''Busca'' cpf_paciente of
        (Inl e, db') \<Rightarrow> (Inl e, db')
      | (Inr paciente, db') \<Rightarrow>
          (let hoje_str = isoformat hoje;
               consultas_cursor =
                 sort_key data
                   (filter (\<lambda>c. paciente_id c = p_id paciente \<and> status c = AGENDADA \<and> data c \<ge> hoje_str)
                      (consultas_collection db'))
           in (enriquecer_todos db' consultas_cursor, db')))"

subsection \<open>Rescheduling and cancelling\<close>

definition reagendar_consulta ::
  "database \<Rightarrow> nat \<Rightarrow> int \<Rightarrow> string \<Rightarrow> string \<Rightarrow> (erro + AgendamentoDetalhado option) \<times> database" where
  "reagendar_consulta db agora consulta_id nova_data_str nova_hora_str =
     (case find_one (\<lambda>c. c_id c = consulta_id) (consultas_collection db) of
        None \<Rightarrow> (Inl (ValueError Consulta_nao_encontrada), db)
      | Some consulta_original \<Rightarrow>
          (if truthy (medico_id consulta_original) \<and>
              find_one (\<lambda>c. medico_id c = medico_id consulta_original \<and> data c = nova_data_str
                             \<and> hora_inicio c = nova_hora_str \<and> c_id c \<noteq> consulta_id)
                (consultas_collection db) \<noteq> None
           then (Inl (ValueError Conflito_de_horario_reagendar), db)
           else
             (case update_one campo_consulta criar_collections_consulta (\<lambda>c. c_id c = consulta_id)
                     (\<lambda>c. c\<lparr>data := nova_data_str, hora_inicio := nova_hora_str, updated_at := agora\<rparr>)
                     (consultas_collection db) of
                Inl e \<Rightarrow> (Inl e, db)
              | Inr (cs, modified_count) \<Rightarrow>
                  (let db' = db\<lparr>consultas_collection := cs\<rparr>
                   in if modified_count = 0 then (Inl (ValueError Nao_foi_possivel_reagendar), db')
                      else (enriquecer_e_validar_agendamento db'
                              (find_one (\<lambda>c. c_id c = consulta_id) (consultas_collection db')), db')))))"

definition cancelar_consulta ::
  "database \<Rightarrow> nat \<Rightarrow> int \<Rightarrow> (erro + AgendamentoDetalhado option) \<times> database" where
  "cancelar_consulta db agora consulta_id =
     (case update_one campo_consulta criar_collections_consulta (\<lambda>c. c_id c = consulta_id)
             (\<lambda>c. c\<lparr>status := CANCELADA, updated_at := agora\<rparr>)
             (consultas_collection db) of
        Inl e \<Rightarrow> (Inl e, db)
      | Inr (cs, modified_count) \<Rightarrow>
          (let db' = db\<lparr>consultas_collection := cs\<rparr>
           in if modified_count = 0 then (Inl (ValueError Nao_encontrada_ou_ja_cancelada), db')
              else (enriquecer_e_validar_agendamento db'
                      (find_one (\<lambda>c. c_id c = consulta_id) (consultas_collection db')), db')))"

subsection \<open>The example documents of \<open>inserir_exemplos\<close>\<close>

definition exemplo_medicos :: "medico list" where
  "exemplo_medicos =
     [\<lparr>m_id = 42, m_nome = ''Dr. Jo'' @ [CHR 0xE3] @ ''o Silva'', m_crm = ''12345'', m_especialidade_id = 1\<rparr>,
      \<lparr>m_id = 58, m_nome = ''Dra. Maria Souza'', m_crm = ''67890'', m_especialidade_id = 2\<rparr>]"

definition exemplo_tipos_exame :: "tipo_exame list" where
  "exemplo_tipos_exame =
     [\<lparr>te_id = 1, te_descricao = ''Exame de Sangue''\<rparr>, \<lparr>te_id = 2, te_descricao = ''Raio-X''\<rparr>]"

definition exemplo_pacientes :: "paciente list" where
  "exemplo_pacientes =
     [\<lparr>p_id = 101, p_nome = ''Carlos Silva'', p_cpf = ''11122233344''\<rparr>,
      \<lparr>p_id = 102, p_nome = ''Ana Pereira'', p_cpf = ''55566677788''\<rparr>]"

definition exemplo_consulta :: "nat \<Rightarrow> consulta" where
  "exemplo_consulta agora =
     \<lparr>c_id = 123, paciente_id = 101, data = ''2025-06-10'', hora_inicio = ''14:00'',
      duracao_minutos = 30, status = AGENDADA, observacoes = Some ''Primeira consulta'',
      created_at = agora, updated_at = agora, medico_id = Some 42, tipo_exame_id = Some 1\<rparr>"

definition inserir_exemplos :: "nat \<Rightarrow> database" where
  "inserir_exemplos agora =
     \<lparr>medicos_collection = exemplo_medicos, consultas_collection = [exemplo_consulta agora],
      tipos_exame_collection = exemplo_tipos_exame, pacientes_collection = exemplo_pacientes\<rparr>"

subsection \<open>Auxiliary notions\<close>

text \<open>The identifier that the next insert into a collection receives.\<close>

definition novo_id_de :: "('d \<Rightarrow> int) \<Rightarrow> int \<Rightarrow> 'd list \<Rightarrow> int" where
  "novo_id_de oid semente xs = (case find_one_maior_id oid xs of Some d \<Rightarrow> oid d + 1 | None \<Rightarrow> semente)"

text \<open>The document that \<open>agendar_consulta\<close> builds and inserts.\<close>

definition nova_consulta_de ::
  "database \<Rightarrow> nat \<Rightarrow> int \<Rightarrow> string \<Rightarrow> string \<Rightarrow> int option \<Rightarrow> int option \<Rightarrow> string option \<Rightarrow> consulta" where
  "nova_consulta_de db agora paciente data_str hora_inicio_str medico tipo_exame obs =
     \<lparr>c_id = novo_id_de c_id 123 (consultas_collection db), paciente_id = paciente, data = data_str,
      hora_inicio = hora_inicio_str, duracao_minutos = 30, status = AGENDADA, observacoes = obs,
      created_at = agora, updated_at = agora,
      medico_id = (if truthy medico then medico else None),
      tipo_exame_id = (if truthy tipo_exame then tipo_exame else None)\<rparr>"

text \<open>The entry of \<open>slots_livres\<close> for a slot given by its start and end times.\<close>

definition slot_de :: "nat \<times> nat \<Rightarrow> slot" where
  "slot_de ab = \<lparr>slot_hora_inicio = strftime_HM (fst ab), slot_hora_fim = strftime_HM (snd ab)\<rparr>"

section \<open>Properties of the store operations\<close>


lemma find_one_None: "find_one P xs = None \<longleftrightarrow> (\<forall>x\<in>set xs. \<not> P x)"
  by (induction xs) (simp_all add: find_one_def)

lemma find_one_Some_set: "find_one P xs = Some x \<Longrightarrow> x \<in> set xs \<and> P x"
  by (induction xs) (auto simp: find_one_def split: if_splits)

lemma find_one_append:
  "find_one P (xs @ ys) = (case find_one P xs of None \<Rightarrow> find_one P ys | Some x \<Rightarrow> Some x)"
  by (induction xs) (simp_all add: find_one_def)

lemma find_one_maior_id_None: "find_one_maior_id oid xs = None \<longleftrightarrow> xs = []"
  by (induction xs) (auto split: option.splits)

lemma find_one_maior_id_Some:
  "find_one_maior_id oid xs = Some y \<Longrightarrow> y \<in> set xs \<and> (\<forall>x\<in>set xs. oid x \<le> oid y)"
proof (induction xs arbitrary: y)
  case Nil
  then show ?case by simp
next
  case (Cons a xs)
  show ?case
  proof (cases "find_one_maior_id oid xs")
    case None
    then have "xs = []" by (simp add: find_one_maior_id_None)
    with Cons.prems show ?thesis by simp
  next
    case (Some z)
    from Cons.IH [OF Some] have z: "z \<in> set xs" "\<forall>x\<in>set xs. oid x \<le> oid z" by auto
    from Cons.prems Some have "y = (if oid z > oid a then z else a)"
      by (simp split: if_splits)
    with z show ?thesis by (auto split: if_splits)
  qed
qed

lemma novo_id_fresco: "x \<in> set xs \<Longrightarrow> oid x < novo_id_de oid semente xs"
proof (cases "find_one_maior_id oid xs")
  case None
  assume "x \<in> set xs"
  with None show ?thesis by (simp add: find_one_maior_id_None)
next
  case (Some y)
  assume "x \<in> set xs"
  with find_one_maior_id_Some [OF Some] have "oid x \<le> oid y" by blast
  with Some show ?thesis by (simp add: novo_id_de_def)
qed

lemma chave_duplicada_paciente:
  "chave_duplicada campo_paciente (([''_id''], True) # criar_collections_paciente) ps p
     \<longleftrightarrow> (\<exists>x\<in>set ps. p_id x = p_id p \<or> p_cpf x = p_cpf p)"
  by (auto simp: chave_duplicada_def criar_collections_paciente_def campo_paciente_def list_ex_iff)

lemma chave_duplicada_consulta_id:
  "chave_duplicada campo_consulta (([''_id''], True) # criar_collections_consulta) cs c
     \<longleftrightarrow> (\<exists>x\<in>set cs. c_id x = c_id c)"
  by (auto simp: chave_duplicada_def criar_collections_consulta_def campo_consulta_def list_ex_iff)

lemma chave_duplicada_consulta: "\<not> chave_duplicada campo_consulta criar_collections_consulta cs c"
  by (simp add: chave_duplicada_def criar_collections_consulta_def)

lemma obter_ou_criar_paciente_existente:
  assumes "limpar_e_validar_cpf cpf = Inr c"
    and "find_one (\<lambda>p. p_cpf p = c) (pacientes_collection db) = Some p"
  shows "obter_ou_criar_paciente db nome cpf = (Inr p, db)"
  using assms by (simp add: obter_ou_criar_paciente_def)

lemma obter_ou_criar_paciente_novo:
  assumes "limpar_e_validar_cpf cpf = Inr c"
    and "find_one (\<lambda>p. p_cpf p = c) (pacientes_collection db) = None"
  shows "obter_ou_criar_paciente db nome cpf =
           (Inr \<lparr>p_id = novo_id_de p_id 101 (pacientes_collection db), p_nome = nome, p_cpf = c\<rparr>,
            db\<lparr>pacientes_collection := pacientes_collection db @
                 [\<lparr>p_id = novo_id_de p_id 101 (pacientes_collection db), p_nome = nome, p_cpf = c\<rparr>]\<rparr>)"
proof -
  let ?ps = "pacientes_collection db"
  let ?p = "\<lparr>p_id = novo_id_de p_id 101 ?ps, p_nome = nome, p_cpf = c\<rparr>"
  have "\<not> chave_duplicada campo_paciente (([''_id''], True) # criar_collections_paciente) ?ps ?p"
    using assms(2) novo_id_fresco [of _ ?ps p_id 101]
    by (fastforce simp: chave_duplicada_paciente find_one_None)
  then have "insert_one campo_paciente criar_collections_paciente ?ps ?p = Inr (?ps @ [?p])"
    by (simp add: insert_one_def)
  then show ?thesis
    using assms by (simp add: obter_ou_criar_paciente_def novo_id_de_def Let_def)
qed

section \<open>Patient identity\<close>

text \<open>
  Claim C6. Whenever two raw national IDs normalise to the same 11 digits, resolving the
  first and then the second, under any two names and from any database, returns the same
  patient record both times (same identifier, same name), and the second call leaves
  the database as the first call left it: the patient stored under that national ID is
  still the record returned, whatever name the second call supplied.
\<close>

theorem obter_ou_criar_paciente_idempotente:
  assumes "limpar_e_validar_cpf cpf1 = Inr c" and "limpar_e_validar_cpf cpf2 = Inr c"
  shows "\<exists>p db1. obter_ou_criar_paciente db nome1 cpf1 = (Inr p, db1)
            \<and> obter_ou_criar_paciente db1 nome2 cpf2 = (Inr p, db1)
            \<and> find_one (\<lambda>q. p_cpf q = c) (pacientes_collection db1) = Some p"
proof (cases "find_one (\<lambda>p. p_cpf p = c) (pacientes_collection db)")
  case (Some p)
  then show ?thesis
    using assms obter_ou_criar_paciente_existente by blast
next
  case None
  let ?p = "\<lparr>p_id = novo_id_de p_id 101 (pacientes_collection db), p_nome = nome1, p_cpf = c\<rparr>"
  let ?db1 = "db\<lparr>pacientes_collection := pacientes_collection db @ [?p]\<rparr>"
  have 1: "obter_ou_criar_paciente db nome1 cpf1 = (Inr ?p, ?db1)"
    using assms(1) None by (rule obter_ou_criar_paciente_novo)
  have 2: "find_one (\<lambda>q. p_cpf q = c) (pacientes_collection ?db1) = Some ?p"
    using None by (simp add: find_one_append) (simp add: find_one_def)
  have 3: "obter_ou_criar_paciente ?db1 nome2 cpf2 = (Inr ?p, ?db1)"
    using assms(2) 2 by (rule obter_ou_criar_paciente_existente)
  from 1 2 3 show ?thesis by blast
qed

theorem obter_ou_criar_paciente_idempotente_witness:
  "\<exists>p db1. obter_ou_criar_paciente (inserir_exemplos 0) ''Maria Lima'' ''999.888.777-66'' = (Inr p, db1)
            \<and> obter_ou_criar_paciente db1 ''Outro Nome'' ''99988877766'' = (Inr p, db1)
            \<and> find_one (\<lambda>q. p_cpf q = ''99988877766'') (pacientes_collection db1) = Some p"
proof -
  have a: "limpar_e_validar_cpf ''999.888.777-66'' = Inr ''99988877766''" by code_simp
  have b: "limpar_e_validar_cpf ''99988877766'' = Inr ''99988877766''" by code_simp
  show ?thesis using obter_ou_criar_paciente_idempotente [OF a b] by blast
qed

section \<open>Booking\<close>

lemma insert_one_consulta:
  "insert_one campo_consulta criar_collections_consulta cs c =
     (if \<exists>x\<in>set cs. c_id x = c_id c then Inl DuplicateKeyError else Inr (cs @ [c]))"
  by (simp add: insert_one_def chave_duplicada_consulta_id)

lemma find_one_novo_id:
  "find_one (\<lambda>c. oid c = novo_id_de oid semente cs) (cs @ [n]) =
     (if oid n = novo_id_de oid semente cs then Some n else None)"
proof -
  have "find_one (\<lambda>c. oid c = novo_id_de oid semente cs) cs = None"
    using novo_id_fresco [of _ cs oid semente] by (fastforce simp: find_one_None)
  then show ?thesis by (simp add: find_one_append, simp add: find_one_def)
qed

lemma agendar_consulta_eq:
  "agendar_consulta db agora paciente data_str hora_inicio_str medico tipo_exame obs =
     (enriquecer_e_validar_agendamento
        (db\<lparr>consultas_collection := consultas_collection db @
              [nova_consulta_de db agora paciente data_str hora_inicio_str medico tipo_exame obs]\<rparr>)
        (Some (nova_consulta_de db agora paciente data_str hora_inicio_str medico tipo_exame obs)),
      db\<lparr>consultas_collection := consultas_collection db @
              [nova_consulta_de db agora paciente data_str hora_inicio_str medico tipo_exame obs]\<rparr>)"
proof -
  let ?n = "nova_consulta_de db agora paciente data_str hora_inicio_str medico tipo_exame obs"
  have id: "c_id ?n = novo_id_de c_id 123 (consultas_collection db)"
    by (simp add: nova_consulta_de_def)
  have "\<not> (\<exists>x\<in>set (consultas_collection db). c_id x = c_id ?n)"
    using novo_id_fresco [of _ "consultas_collection db" c_id 123] by (fastforce simp: id)
  then have ins: "insert_one campo_consulta criar_collections_consulta (consultas_collection db) ?n
                    = Inr (consultas_collection db @ [?n])"
    by (simp add: insert_one_consulta)
  have fnd: "find_one (\<lambda>c. c_id c = novo_id_de c_id 123 (consultas_collection db))
               (consultas_collection db @ [?n]) = Some ?n"
    by (simp add: find_one_novo_id id)
  have n: "?n = \<lparr>c_id = (case find_one_maior_id c_id (consultas_collection db) of
                       Some maior_id_doc \<Rightarrow> c_id maior_id_doc + 1
                     | None \<Rightarrow> 123), paciente_id = paciente, data = data_str, hora_inicio = hora_inicio_str,
             duracao_minutos = 30, status = AGENDADA, observacoes = obs,
             created_at = agora, updated_at = agora,
             medico_id = (if truthy medico then medico else None),
             tipo_exame_id = (if truthy tipo_exame then tipo_exame else None)\<rparr>"
    by (simp add: nova_consulta_de_def novo_id_de_def)
  show ?thesis
    unfolding agendar_consulta_def Let_def n [symmetric]
    using ins fnd by (simp add: novo_id_de_def)
qed

lemma agendar_consulta_nunca_conflito:
  "fst (agendar_consulta db agora paciente data_str hora_inicio_str medico tipo_exame obs)
     \<noteq> Inl (ValueError Conflito_de_horario_agendar)"
  by (simp add: agendar_consulta_eq enriquecer_e_validar_agendamento_def Let_def split: option.splits)

text \<open>
  Claim C1. The claim says that a second booking for the same physician, date and start
  time fails with the conflict error. \<open>agendar_consulta\<close> reports that error only when
  the insert raises \<open>DuplicateKeyError\<close>; with the indexes of \<open>criar_collections\<close>
  (none of them unique on the appointment collection) and a fresh \<open>_id\<close> for every
  document, the insert never does (\<open>agendar_consulta_nunca_conflito\<close>). Evaluated on the
  example database: two bookings for physician 42 on 2025-07-15 at 09:00 both return an
  appointment, and the collection then holds both, scheduled at the same time.
\<close>

theorem agendar_consulta_mesmo_horario_aceito:
  "(let r1 = agendar_consulta (inserir_exemplos 0) 1 101 ''2025-07-15'' ''09:00'' (Some 42) None (Some ''Retorno'');
        r2 = agendar_consulta (snd r1) 2 102 ''2025-07-15'' ''09:00'' (Some 42) None (Some ''Retorno'')
    in fst r1 = Inr (Some \<lparr>ad_id = 124, ad_paciente_id = 101, ad_data = ''2025-07-15'',
                            ad_hora_inicio = ''09:00'', ad_status = AGENDADA, ad_observacoes = ''Retorno'',
                            ad_medico_id = Some 42, ad_tipo_exame_id = None,
                            nome_medico = ''Dr. Jo'' @ [CHR 0xE3] @ ''o Silva'',
                            descricao_exame = ''Consulta de Rotina''\<rparr>)
     \<and> fst r2 = Inr (Some \<lparr>ad_id = 125, ad_paciente_id = 102, ad_data = ''2025-07-15'',
                            ad_hora_inicio = ''09:00'', ad_status = AGENDADA, ad_observacoes = ''Retorno'',
                            ad_medico_id = Some 42, ad_tipo_exame_id = None,
                            nome_medico = ''Dr. Jo'' @ [CHR 0xE3] @ ''o Silva'',
                            descricao_exame = ''Consulta de Rotina''\<rparr>)
     \<and> map (\<lambda>c. (c_id c, medico_id c, data c, hora_inicio c, status c)) (consultas_collection (snd r2))
         = [(123, Some 42, ''2025-06-10'', ''14:00'', AGENDADA),
            (124, Some 42, ''2025-07-15'', ''09:00'', AGENDADA),
            (125, Some 42, ''2025-07-15'', ''09:00'', AGENDADA)])"
  by code_simp

section \<open>Cancelling\<close>

text \<open>
  Claim C2. The claim says that cancelling an appointment that is already cancelled fails
  and leaves the record unchanged. \<open>cancelar_consulta\<close> filters on \<open>_id\<close> alone and
  also sets \<open>updated_at\<close>, so the update modifies the document whenever the clock has
  moved. Evaluated on the example database: appointment 123 is cancelled at time 7;
  cancelling it again at time 9 returns the appointment instead of an error, and the
  stored \<open>updated_at\<close> changes from 7 to 9.
\<close>

theorem cancelar_consulta_ja_cancelada_aceito:
  "(let db1 = snd (cancelar_consulta (inserir_exemplos 5) 7 123);
        r = cancelar_consulta db1 9 123
    in map (\<lambda>c. (c_id c, status c, updated_at c)) (consultas_collection db1) = [(123, CANCELADA, 7)]
     \<and> fst r = Inr (Some \<lparr>ad_id = 123, ad_paciente_id = 101, ad_data = ''2025-06-10'',
                           ad_hora_inicio = ''14:00'', ad_status = CANCELADA,
                           ad_observacoes = ''Primeira consulta'',
                           ad_medico_id = Some 42, ad_tipo_exame_id = Some 1,
                           nome_medico = ''Dr. Jo'' @ [CHR 0xE3] @ ''o Silva'',
                           descricao_exame = ''Exame de Sangue''\<rparr>)
     \<and> map (\<lambda>c. (c_id c, status c, updated_at c)) (consultas_collection (snd r)) = [(123, CANCELADA, 9)])"
  by code_simp

section \<open>Rescheduling\<close>

lemma update_one_consulta:
  "update_one campo_consulta criar_collections_consulta P f cs =
     (case find_one P cs of
        None \<Rightarrow> Inr (cs, 0)
      | Some x \<Rightarrow> if f x = x then Inr (cs, 0) else Inr (substituir P (f x) cs, 1))"
  by (simp add: update_one_def chave_duplicada_consulta split: option.splits)

lemma find_one_substituir:
  "find_one P xs = Some x \<Longrightarrow> P y \<Longrightarrow> find_one P (substituir P y xs) = Some y"
  by (induction xs) (auto simp: find_one_def split: if_splits)

lemma reagendar_consulta_nao_encontrada:
  assumes "find_one (\<lambda>c. c_id c = cid) (consultas_collection db) = None"
  shows "reagendar_consulta db agora cid nd nh = (Inl (ValueError Consulta_nao_encontrada), db)"
  using assms by (simp add: reagendar_consulta_def)

lemma reagendar_consulta_conflito:
  assumes "find_one (\<lambda>c. c_id c = cid) (consultas_collection db) = Some orig"
    and "medico_id orig = Some m" and "m \<noteq> 0"
    and "outra \<in> set (consultas_collection db)" and "c_id outra \<noteq> cid"
    and "medico_id outra = Some m" and "data outra = nd" and "hora_inicio outra = nh"
  shows "reagendar_consulta db agora cid nd nh = (Inl (ValueError Conflito_de_horario_reagendar), db)"
proof -
  have "find_one (\<lambda>c. medico_id c = medico_id orig \<and> data c = nd \<and> hora_inicio c = nh \<and> c_id c \<noteq> cid)
          (consultas_collection db) \<noteq> None"
    using assms(2,4-8) unfolding find_one_None by force
  moreover have "truthy (medico_id orig)"
    using assms(2,3) by (simp add: truthy_def)
  ultimately show ?thesis
    using assms(1) by (simp add: reagendar_consulta_def)
qed

lemma reagendar_consulta_aplicado:
  assumes "find_one (\<lambda>c. c_id c = cid) (consultas_collection db) = Some orig"
    and "\<not> (truthy (medico_id orig) \<and>
             (\<exists>outra\<in>set (consultas_collection db). c_id outra \<noteq> cid \<and> medico_id outra = medico_id orig
                 \<and> data outra = nd \<and> hora_inicio outra = nh))"
    and "novo = orig\<lparr>data := nd, hora_inicio := nh, updated_at := agora\<rparr>"
    and "db' = db\<lparr>consultas_collection := substituir (\<lambda>c. c_id c = cid) novo (consultas_collection db)\<rparr>"
  shows "reagendar_consulta db agora cid nd nh =
           (if novo = orig then (Inl (ValueError Nao_foi_possivel_reagendar), db)
            else (enriquecer_e_validar_agendamento db' (Some novo), db'))"
proof -
  have nc: "(truthy (medico_id orig) \<and>
     find_one (\<lambda>c. medico_id c = medico_id orig \<and> data c = nd \<and> hora_inicio c = nh \<and> c_id c \<noteq> cid)
          (consultas_collection db) \<noteq> None) = False"
    using assms(2) unfolding find_one_None by force
  have id: "c_id novo = cid"
    using find_one_Some_set [OF assms(1)] assms(3) by simp
  have rd: "find_one (\<lambda>c. c_id c = cid) (substituir (\<lambda>c. c_id c = cid) novo (consultas_collection db)) = Some novo"
    using find_one_substituir [OF assms(1), of novo] id by simp
  show ?thesis
    using assms(1,3,4) rd
    by (simp add: reagendar_consulta_def update_one_consulta nc Let_def del: not_None_eq)
qed

text \<open>
  Claim C3. Rescheduling fails with the not-found error when no appointment has the
  given identifier. When the appointment exists and has a physician (a \<open>medico_id\<close> that
  Python takes as true: present and not 0) and another appointment, with a different
  identifier, of that physician has exactly the new date and the new start time, it fails
  with the conflict error; in both cases the database is unchanged. Otherwise the update
  is applied: reading the appointment afterwards gives the original document with the
  new date, the new time and the new \<open>updated_at\<close>, and, when that document differs from
  the original, the call returns its enriched view (which carries the new date and time
  whenever the appointment has notes for the view to validate).
\<close>

theorem reagendar_consulta_casos:
  "(find_one (\<lambda>c. c_id c = cid) (consultas_collection db) = None \<longrightarrow>
      reagendar_consulta db agora cid nd nh = (Inl (ValueError Consulta_nao_encontrada), db))
   \<and> (\<forall>orig m.
        find_one (\<lambda>c. c_id c = cid) (consultas_collection db) = Some orig \<and>
        medico_id orig = Some m \<and> m \<noteq> 0 \<and>
        (\<exists>outra\<in>set (consultas_collection db).
            c_id outra \<noteq> cid \<and> medico_id outra = Some m \<and> data outra = nd \<and> hora_inicio outra = nh) \<longrightarrow>
        reagendar_consulta db agora cid nd nh = (Inl (ValueError Conflito_de_horario_reagendar), db))
   \<and> (\<forall>orig.
        find_one (\<lambda>c. c_id c = cid) (consultas_collection db) = Some orig \<and>
        \<not> (truthy (medico_id orig) \<and>
           (\<exists>outra\<in>set (consultas_collection db).
               c_id outra \<noteq> cid \<and> medico_id outra = medico_id orig \<and> data outra = nd \<and> hora_inicio outra = nh)) \<longrightarrow>
        (\<exists>r db'.
            reagendar_consulta db agora cid nd nh = (r, db') \<and>
            find_one (\<lambda>c. c_id c = cid) (consultas_collection db')
              = Some (orig\<lparr>data := nd, hora_inicio := nh, updated_at := agora\<rparr>) \<and>
            (orig\<lparr>data := nd, hora_inicio := nh, updated_at := agora\<rparr> = orig \<longrightarrow>
               r = Inl (ValueError Nao_foi_possivel_reagendar) \<and> db' = db) \<and>
            (orig\<lparr>data := nd, hora_inicio := nh, updated_at := agora\<rparr> \<noteq> orig \<longrightarrow>
               r = enriquecer_e_validar_agendamento db'
                     (Some (orig\<lparr>data := nd, hora_inicio := nh, updated_at := agora\<rparr>)) \<and>
               (\<forall>obs. observacoes orig = Some obs \<longrightarrow>
                  (\<exists>v. r = Inr (Some v) \<and> ad_id v = cid \<and> ad_data v = nd \<and> ad_hora_inicio v = nh)))))"
proof (intro conjI allI impI)
  assume "find_one (\<lambda>c. c_id c = cid) (consultas_collection db) = None"
  then show "reagendar_consulta db agora cid nd nh = (Inl (ValueError Consulta_nao_encontrada), db)"
    by (rule reagendar_consulta_nao_encontrada)
next
  fix orig m
  assume h: "find_one (\<lambda>c. c_id c = cid) (consultas_collection db) = Some orig \<and>
        medico_id orig = Some m \<and> m \<noteq> 0 \<and>
        (\<exists>outra\<in>set (consultas_collection db).
            c_id outra \<noteq> cid \<and> medico_id outra = Some m \<and> data outra = nd \<and> hora_inicio outra = nh)"
  then obtain outra where "outra \<in> set (consultas_collection db)" "c_id outra \<noteq> cid"
      "medico_id outra = Some m" "data outra = nd" "hora_inicio outra = nh"
    by blast
  with h show "reagendar_consulta db agora cid nd nh = (Inl (ValueError Conflito_de_horario_reagendar), db)"
    using reagendar_consulta_conflito [of cid db orig m outra nd nh agora] by blast
next
  fix orig
  assume h: "find_one (\<lambda>c. c_id c = cid) (consultas_collection db) = Some orig \<and>
        \<not> (truthy (medico_id orig) \<and>
           (\<exists>outra\<in>set (consultas_collection db).
               c_id outra \<noteq> cid \<and> medico_id outra = medico_id orig \<and> data outra = nd \<and> hora_inicio outra = nh))"
  let ?novo = "orig\<lparr>data := nd, hora_inicio := nh, updated_at := agora\<rparr>"
  let ?db' = "db\<lparr>consultas_collection := substituir (\<lambda>c. c_id c = cid) ?novo (consultas_collection db)\<rparr>"
  from h have f: "find_one (\<lambda>c. c_id c = cid) (consultas_collection db) = Some orig" by blast
  have id: "c_id orig = cid" using find_one_Some_set [OF f] by simp
  have eq: "reagendar_consulta db agora cid nd nh =
           (if ?novo = orig then (Inl (ValueError Nao_foi_possivel_reagendar), db)
            else (enriquecer_e_validar_agendamento ?db' (Some ?novo), ?db'))"
    using h by (intro reagendar_consulta_aplicado) auto
  show "\<exists>r db'.
            reagendar_consulta db agora cid nd nh = (r, db') \<and>
            find_one (\<lambda>c. c_id c = cid) (consultas_collection db') = Some ?novo \<and>
            (?novo = orig \<longrightarrow> r = Inl (ValueError Nao_foi_possivel_reagendar) \<and> db' = db) \<and>
            (?novo \<noteq> orig \<longrightarrow>
               r = enriquecer_e_validar_agendamento db' (Some ?novo) \<and>
               (\<forall>obs. observacoes orig = Some obs \<longrightarrow>
                  (\<exists>v. r = Inr (Some v) \<and> ad_id v = cid \<and> ad_data v = nd \<and> ad_hora_inicio v = nh)))"
  proof (cases "?novo = orig")
    case True
    with eq f show ?thesis by simp
  next
    case False
    have rd: "find_one (\<lambda>c. c_id c = cid) (consultas_collection ?db') = Some ?novo"
      using find_one_substituir [OF f, of ?novo] id by simp
    have v: "\<forall>obs. observacoes orig = Some obs \<longrightarrow>
               (\<exists>v. enriquecer_e_validar_agendamento ?db' (Some ?novo) = Inr (Some v)
                    \<and> ad_id v = cid \<and> ad_data v = nd \<and> ad_hora_inicio v = nh)"
      using id by (simp add: enriquecer_e_validar_agendamento_def Let_def)
    from False eq rd v show ?thesis by simp
  qed
qed

theorem reagendar_consulta_casos_witness:
  "reagendar_consulta (inserir_exemplos 0) 5 999 ''2025-06-11'' ''10:00''
     = (Inl (ValueError Consulta_nao_encontrada), inserir_exemplos 0)
   \<and> reagendar_consulta
        (snd (agendar_consulta (inserir_exemplos 0) 1 102 ''2025-07-15'' ''09:00'' (Some 42) None (Some ''Retorno'')))
        5 123 ''2025-07-15'' ''09:00''
     = (Inl (ValueError Conflito_de_horario_reagendar),
        snd (agendar_consulta (inserir_exemplos 0) 1 102 ''2025-07-15'' ''09:00'' (Some 42) None (Some ''Retorno'')))
   \<and> (\<exists>r db'. reagendar_consulta (inserir_exemplos 0) 5 123 ''2025-06-11'' ''10:00'' = (r, db')
          \<and> find_one (\<lambda>c. c_id c = 123) (consultas_collection db')
              = Some ((exemplo_consulta 0)\<lparr>data := ''2025-06-11'', hora_inicio := ''10:00'', updated_at := 5\<rparr>)
          \<and> (\<exists>v. r = Inr (Some v) \<and> ad_id v = 123 \<and> ad_data v = ''2025-06-11''
                 \<and> ad_hora_inicio v = ''10:00''))"
proof -
  let ?dbB = "snd (agendar_consulta (inserir_exemplos 0) 1 102 ''2025-07-15'' ''09:00'' (Some 42) None (Some ''Retorno''))"
  let ?novo = "(exemplo_consulta 0)\<lparr>data := ''2025-06-11'', hora_inicio := ''10:00'', updated_at := 5\<rparr>"
  have a: "find_one (\<lambda>c. c_id c = 999) (consultas_collection (inserir_exemplos 0)) = None"
    by (simp add: inserir_exemplos_def exemplo_consulta_def find_one_def)
  have w1: "reagendar_consulta (inserir_exemplos 0) 5 999 ''2025-06-11'' ''10:00''
              = (Inl (ValueError Consulta_nao_encontrada), inserir_exemplos 0)"
    using reagendar_consulta_casos [where cid = 999 and db = "inserir_exemplos 0" and agora = 5
        and nd = "''2025-06-11''" and nh = "''10:00''"] a
    by blast
  have b1: "find_one (\<lambda>c. c_id c = 123) (consultas_collection ?dbB) = Some (exemplo_consulta 0)"
    by code_simp
  have b2: "medico_id (exemplo_consulta 0) = Some 42 \<and> (42::int) \<noteq> 0"
    by (simp add: exemplo_consulta_def)
  have b3: "\<exists>outra\<in>set (consultas_collection ?dbB).
              c_id outra \<noteq> 123 \<and> medico_id outra = Some 42 \<and> data outra = ''2025-07-15''
              \<and> hora_inicio outra = ''09:00''"
    by code_simp
  have w2: "reagendar_consulta ?dbB 5 123 ''2025-07-15'' ''09:00''
              = (Inl (ValueError Conflito_de_horario_reagendar), ?dbB)"
    using reagendar_consulta_casos [where cid = 123 and db = ?dbB and agora = 5
        and nd = "''2025-07-15''" and nh = "''09:00''"] b1 b2 b3
    by blast
  have c1: "find_one (\<lambda>c. c_id c = 123) (consultas_collection (inserir_exemplos 0)) = Some (exemplo_consulta 0)"
    by (simp add: inserir_exemplos_def exemplo_consulta_def find_one_def)
  have c2: "\<not> (truthy (medico_id (exemplo_consulta 0)) \<and>
           (\<exists>outra\<in>set (consultas_collection (inserir_exemplos 0)).
               c_id outra \<noteq> 123 \<and> medico_id outra = medico_id (exemplo_consulta 0)
               \<and> data outra = ''2025-06-11'' \<and> hora_inicio outra = ''10:00''))"
    by (simp add: inserir_exemplos_def exemplo_consulta_def)
  have c3: "?novo \<noteq> exemplo_consulta 0"
    by (simp add: exemplo_consulta_def)
  have c4: "observacoes (exemplo_consulta 0) = Some ''Primeira consulta''"
    by (simp add: exemplo_consulta_def)
  have w3: "\<exists>r db'. reagendar_consulta (inserir_exemplos 0) 5 123 ''2025-06-11'' ''10:00'' = (r, db')
          \<and> find_one (\<lambda>c. c_id c = 123) (consultas_collection db') = Some ?novo
          \<and> (\<exists>v. r = Inr (Some v) \<and> ad_id v = 123 \<and> ad_data v = ''2025-06-11''
                 \<and> ad_hora_inicio v = ''10:00'')"
    using reagendar_consulta_casos [where cid = 123 and db = "inserir_exemplos 0" and agora = 5
        and nd = "''2025-06-11''" and nh = "''10:00''"] c1 c2 c3 c4
    by blast
  from w1 w2 w3 show ?thesis by blast
qed

text \<open>
  Claim C9. The conflict check of rescheduling does not look at the status: when the
  appointment exists and has a physician (present and not 0) and some other appointment
  of that physician has exactly the new date and start time, rescheduling fails with the
  conflict error and leaves the database unchanged, whatever the status \<open>st\<close> of that
  other appointment is, \<open>CANCELADA\<close> and \<open>CONCLUIDA\<close> included.
\<close>

theorem reagendar_consulta_conflito_ignora_status:
  assumes "find_one (\<lambda>c. c_id c = cid) (consultas_collection db) = Some orig"
    and "medico_id orig = Some m" and "m \<noteq> 0"
    and "outra \<in> set (consultas_collection db)" and "c_id outra \<noteq> cid"
    and "medico_id outra = Some m" and "data outra = nd" and "hora_inicio outra = nh"
    and "status outra = st"
  shows "reagendar_consulta db agora cid nd nh = (Inl (ValueError Conflito_de_horario_reagendar), db)"
  using assms(1-8) by (rule reagendar_consulta_conflito)

theorem reagendar_consulta_conflito_ignora_status_witness:
  "reagendar_consulta
     \<lparr>medicos_collection = exemplo_medicos,
      consultas_collection =
        [exemplo_consulta 0,
         \<lparr>c_id = 124, paciente_id = 102, data = ''2025-07-15'', hora_inicio = ''09:00'',
          duracao_minutos = 30, status = CANCELADA, observacoes = Some ''Retorno'',
          created_at = 1, updated_at = 3, medico_id = Some 42, tipo_exame_id = None\<rparr>],
      tipos_exame_collection = exemplo_tipos_exame, pacientes_collection = exemplo_pacientes\<rparr>
     5 123 ''2025-07-15'' ''09:00''
   = (Inl (ValueError Conflito_de_horario_reagendar),
      \<lparr>medicos_collection = exemplo_medicos,
       consultas_collection =
        [exemplo_consulta 0,
         \<lparr>c_id = 124, paciente_id = 102, data = ''2025-07-15'', hora_inicio = ''09:00'',
          duracao_minutos = 30, status = CANCELADA, observacoes = Some ''Retorno'',
          created_at = 1, updated_at = 3, medico_id = Some 42, tipo_exame_id = None\<rparr>],
       tipos_exame_collection = exemplo_tipos_exame, pacientes_collection = exemplo_pacientes\<rparr>)"
  by (rule reagendar_consulta_conflito_ignora_status
        [where orig = "exemplo_consulta 0" and m = 42 and st = CANCELADA and
           outra = "\<lparr>c_id = 124, paciente_id = 102, data = ''2025-07-15'', hora_inicio = ''09:00'',
          duracao_minutos = 30, status = CANCELADA, observacoes = Some ''Retorno'',
          created_at = 1, updated_at = 3, medico_id = Some 42, tipo_exame_id = None\<rparr>"])
     (simp_all add: find_one_def exemplo_consulta_def)

section \<open>Listing\<close>

lemma ver_minhas_consultas_paciente_novo:
  assumes "limpar_e_validar_cpf cpf = Inr c"
    and "find_one (\<lambda>p. p_cpf p = c) (pacientes_collection db) = None"
    and "novo = \<lparr>p_id = novo_id_de p_id 101 (pacientes_collection db), p_nome = ''Busca'', p_cpf = c\<rparr>"
    and "db' = db\<lparr>pacientes_collection := pacientes_collection db @ [novo]\<rparr>"
  shows "ver_minhas_consultas db hoje cpf =
           (enriquecer_todos db'
              (sort_key data
                 (filter (\<lambda>x. paciente_id x = p_id novo \<and> status x = AGENDADA \<and> data x \<ge> isoformat hoje)
                    (consultas_collection db))), db')"
  using obter_ou_criar_paciente_novo [OF assms(1,2), of "''Busca''"] assms(3,4)
  by (simp add: ver_minhas_consultas_def Let_def)

lemma integridade_paciente_novo_id:
  assumes "\<forall>x\<in>set cs. \<exists>p\<in>set ps. p_id p = paciente_id x"
  shows "\<forall>x\<in>set cs. paciente_id x \<noteq> novo_id_de p_id 101 ps"
proof
  fix x
  assume "x \<in> set cs"
  with assms obtain p where "p \<in> set ps" "p_id p = paciente_id x" by blast
  with novo_id_fresco [of p ps p_id 101] show "paciente_id x \<noteq> novo_id_de p_id 101 ps" by simp
qed

text \<open>
  Claim C10, as stated, fails: it promises an empty list for every national ID that
  matches no patient. With an empty patient collection and the example appointment,
  which names patient 101, the patient created for the lookup receives that identifier
  101 and the appointment is listed.
\<close>

theorem ver_minhas_consultas_lista_nao_vazia:
  "pacientes_collection
     \<lparr>medicos_collection = exemplo_medicos, consultas_collection = [exemplo_consulta 0],
      tipos_exame_collection = exemplo_tipos_exame, pacientes_collection = []\<rparr> = []
   \<and> limpar_e_validar_cpf ''999.888.777-66'' = Inr ''99988877766''
   \<and> isoformat 739403 = ''2025-06-01''
   \<and> fst (ver_minhas_consultas
        \<lparr>medicos_collection = exemplo_medicos, consultas_collection = [exemplo_consulta 0],
         tipos_exame_collection = exemplo_tipos_exame, pacientes_collection = []\<rparr>
        739403 ''999.888.777-66'')
      = Inr [Some \<lparr>ad_id = 123, ad_paciente_id = 101, ad_data = ''2025-06-10'',
                   ad_hora_inicio = ''14:00'', ad_status = AGENDADA,
                   ad_observacoes = ''Primeira consulta'',
                   ad_medico_id = Some 42, ad_tipo_exame_id = Some 1,
                   nome_medico = ''Dr. Jo'' @ [CHR 0xE3] @ ''o Silva'',
                   descricao_exame = ''Exame de Sangue''\<rparr>]"
  by code_simp

text \<open>
  Claim C10, amended. For every national ID that normalises to 11 digits and matches no
  stored patient, in a database where no appointment carries the identifier that the new
  patient receives (as in every database whose appointments all name a stored patient,
  \<open>integridade_paciente_novo_id\<close>), \<open>ver_minhas_consultas\<close> does not fail: it returns the
  empty list and a database that differs from the given one only by the new patient,
  named \<open>Busca\<close>, appended to the patient collection; the appointment collection is
  unchanged.
\<close>

theorem ver_minhas_consultas_cria_paciente:
  assumes "limpar_e_validar_cpf cpf = Inr c"
    and "find_one (\<lambda>p. p_cpf p = c) (pacientes_collection db) = None"
    and "\<forall>x\<in>set (consultas_collection db). paciente_id x \<noteq> novo_id_de p_id 101 (pacientes_collection db)"
  shows "ver_minhas_consultas db hoje cpf =
           (Inr [], db\<lparr>pacientes_collection := pacientes_collection db @
                        [\<lparr>p_id = novo_id_de p_id 101 (pacientes_collection db),
                          p_nome = ''Busca'', p_cpf = c\<rparr>]\<rparr>)"
proof -
  have "filter (\<lambda>x. paciente_id x = novo_id_de p_id 101 (pacientes_collection db) \<and> status x = AGENDADA
                     \<and> data x \<ge> isoformat hoje) (consultas_collection db) = []"
    using assms(3) by (simp add: filter_empty_conv)
  then show ?thesis
    using ver_minhas_consultas_paciente_novo [OF assms(1,2) refl refl, of hoje] by simp
qed

theorem ver_minhas_consultas_cria_paciente_witness:
  "ver_minhas_consultas (inserir_exemplos 0) 739403 ''999.888.777-66'' =
     (Inr [], (inserir_exemplos 0)\<lparr>pacientes_collection := exemplo_pacientes @
                 [\<lparr>p_id = 103, p_nome = ''Busca'', p_cpf = ''99988877766''\<rparr>]\<rparr>)"
proof -
  have a: "limpar_e_validar_cpf ''999.888.777-66'' = Inr ''99988877766''" by code_simp
  have b: "find_one (\<lambda>p. p_cpf p = ''99988877766'') (pacientes_collection (inserir_exemplos 0)) = None"
    by code_simp
  have n: "novo_id_de p_id 101 (pacientes_collection (inserir_exemplos 0)) = 103" by code_simp
  have c: "\<forall>x\<in>set (consultas_collection (inserir_exemplos 0)).
             paciente_id x \<noteq> novo_id_de p_id 101 (pacientes_collection (inserir_exemplos 0))"
    unfolding n by (simp add: inserir_exemplos_def exemplo_consulta_def)
  have p: "pacientes_collection (inserir_exemplos 0) = exemplo_pacientes"
    by (simp add: inserir_exemplos_def)
  have n': "novo_id_de p_id 101 exemplo_pacientes = 103" by code_simp
  show ?thesis
    using ver_minhas_consultas_cria_paciente [OF a b c, of 739403] by (simp add: n' p)
qed

section \<open>Booking an exam\<close>

lemma obter_ou_criar_paciente_sucesso:
  assumes "limpar_e_validar_cpf cpf = Inr c"
  shows "\<exists>p db1. obter_ou_criar_paciente db nome cpf = (Inr p, db1)
           \<and> tipos_exame_collection db1 = tipos_exame_collection db
           \<and> medicos_collection db1 = medicos_collection db
           \<and> consultas_collection db1 = consultas_collection db"
proof (cases "find_one (\<lambda>p. p_cpf p = c) (pacientes_collection db)")
  case None
  show ?thesis
    using obter_ou_criar_paciente_novo [OF assms None, of nome] by simp
next
  case (Some p)
  show ?thesis
    using obter_ou_criar_paciente_existente [OF assms Some, of nome] by simp
qed

lemma find_one_distinct:
  "distinct (map f xs) \<Longrightarrow> x \<in> set xs \<Longrightarrow> find_one (\<lambda>d. f d = f x) xs = Some x"
  by (induction xs) (auto simp: find_one_def)

lemma enriquecer_exame:
  assumes "medico_id doc = None" and "tipo_exame_id doc = Some t"
    and "find_one (\<lambda>d. te_id d = t) (tipos_exame_collection db) = Some e"
    and "observacoes doc = Some obs"
  shows "enriquecer_e_validar_agendamento db (Some doc) =
           Inr (Some \<lparr>ad_id = c_id doc, ad_paciente_id = paciente_id doc, ad_data = data doc,
                      ad_hora_inicio = hora_inicio doc, ad_status = status doc,
                      ad_observacoes = obs, ad_medico_id = None, ad_tipo_exame_id = Some t,
                      nome_medico = ''N/A (Apenas Exame)'', descricao_exame = te_descricao e\<rparr>)"
  using assms by (simp add: enriquecer_e_validar_agendamento_def)

text \<open>
  Claim C8, as stated, fails. On the example database the view returned for the booking
  of the claim has \<open>nome_medico\<close> equal to the literal of the code, \<open>N/A (Apenas Exame)\<close>,
  not \<open>N/A (exam only)\<close>. And that an exam type \<open>Exame de Sangue\<close> is stored does not
  suffice for the rest: when its \<open>_id\<close> is 0 the view has no \<open>tipo_exame_id\<close> and the
  default description, and when a type spelled \<open>exame de sangue\<close> is stored before it, the
  case-insensitive query finds that one and the view carries its description.
\<close>

theorem agendar_exame_simples_exemplo_diverge:
  "fst (agendar_exame_simples (inserir_exemplos 0) 1 ''Carlos Silva'' ''111.222.333-44''
          ''2025-07-15'' ''09:00'' ''Exame de Sangue'')
     = Inr (Some \<lparr>ad_id = 124, ad_paciente_id = 101, ad_data = ''2025-07-15'',
                   ad_hora_inicio = ''09:00'', ad_status = AGENDADA,
                   ad_observacoes = ''Exame: Exame de Sangue'',
                   ad_medico_id = None, ad_tipo_exame_id = Some 1,
                   nome_medico = ''N/A (Apenas Exame)'', descricao_exame = ''Exame de Sangue''\<rparr>)
   \<and> ''N/A (Apenas Exame)'' \<noteq> ''N/A (exam only)''
   \<and> fst (agendar_exame_simples
            ((inserir_exemplos 0)\<lparr>tipos_exame_collection := [\<lparr>te_id = 0, te_descricao = ''Exame de Sangue''\<rparr>]\<rparr>)
            1 ''Carlos Silva'' ''111.222.333-44'' ''2025-07-15'' ''09:00'' ''Exame de Sangue'')
     = Inr (Some \<lparr>ad_id = 124, ad_paciente_id = 101, ad_data = ''2025-07-15'',
                   ad_hora_inicio = ''09:00'', ad_status = AGENDADA,
                   ad_observacoes = ''Exame: Exame de Sangue'',
                   ad_medico_id = None, ad_tipo_exame_id = None,
                   nome_medico = ''N/A (Apenas Exame)'', descricao_exame = ''Consulta de Rotina''\<rparr>)
   \<and> fst (agendar_exame_simples
            ((inserir_exemplos 0)\<lparr>tipos_exame_collection :=
                [\<lparr>te_id = 1, te_descricao = ''exame de sangue''\<rparr>,
                 \<lparr>te_id = 2, te_descricao = ''Exame de Sangue''\<rparr>]\<rparr>)
            1 ''Carlos Silva'' ''111.222.333-44'' ''2025-07-15'' ''09:00'' ''Exame de Sangue'')
     = Inr (Some \<lparr>ad_id = 124, ad_paciente_id = 101, ad_data = ''2025-07-15'',
                   ad_hora_inicio = ''09:00'', ad_status = AGENDADA,
                   ad_observacoes = ''Exame: Exame de Sangue'',
                   ad_medico_id = None, ad_tipo_exame_id = Some 1,
                   nome_medico = ''N/A (Apenas Exame)'', descricao_exame = ''exame de sangue''\<rparr>)"
  by code_simp

text \<open>
  Claim C8, amended. In every database whose exam types have distinct identifiers and
  in which the first exam type matching \<open>Exame de Sangue\<close> up to the case of letters is
  spelled exactly so and has an identifier other than 0, booking the exam
  \<open>Exame de Sangue\<close> for national ID \<open>111.222.333-44\<close> on \<open>2025-07-15\<close> at \<open>09:00\<close>, under any
  patient name, returns a view whose \<open>tipo_exame_id\<close> is that identifier, whose
  \<open>medico_id\<close> is absent, whose \<open>descricao_exame\<close> is \<open>Exame de Sangue\<close> and whose
  \<open>nome_medico\<close> is \<open>N/A (Apenas Exame)\<close>.
\<close>

theorem agendar_exame_simples_exemplo:
  assumes "find_one (\<lambda>d. regex_exato_i ''Exame de Sangue'' (te_descricao d)) (tipos_exame_collection db) = Some e"
    and "te_descricao e = ''Exame de Sangue''"
    and "te_id e \<noteq> 0"
    and "distinct (map te_id (tipos_exame_collection db))"
  shows "\<exists>v db'. agendar_exame_simples db agora nome_paciente ''111.222.333-44'' ''2025-07-15'' ''09:00''
                    ''Exame de Sangue'' = (Inr (Some v), db')
           \<and> ad_tipo_exame_id v = Some (te_id e) \<and> ad_medico_id v = None
           \<and> descricao_exame v = ''Exame de Sangue'' \<and> nome_medico v = ''N/A (Apenas Exame)''
           \<and> ad_data v = ''2025-07-15'' \<and> ad_hora_inicio v = ''09:00'' \<and> ad_status v = AGENDADA"
proof -
  have cpf: "limpar_e_validar_cpf ''111.222.333-44'' = Inr ''11122233344''" by code_simp
  have wl: "py_lower ''Exame de Sangue'' \<in> set EXAMES_SEM_ESPECIALISTA" by code_simp
  obtain p db1 where p: "obter_ou_criar_paciente db nome_paciente ''111.222.333-44'' = (Inr p, db1)"
      and t: "tipos_exame_collection db1 = tipos_exame_collection db"
    using obter_ou_criar_paciente_sucesso [OF cpf, of db nome_paciente] by blast
  let ?n = "nova_consulta_de db1 agora (p_id p) ''2025-07-15'' ''09:00'' None (Some (te_id e))
              (Some (''Exame: '' @ ''Exame de Sangue''))"
  let ?db' = "db1\<lparr>consultas_collection := consultas_collection db1 @ [?n]\<rparr>"
  have e_in: "e \<in> set (tipos_exame_collection db)"
    using find_one_Some_set [OF assms(1)] by simp
  have by_id: "find_one (\<lambda>d. te_id d = te_id e) (tipos_exame_collection ?db') = Some e"
    using find_one_distinct [OF assms(4) e_in] t by simp
  have n1: "medico_id ?n = None" "tipo_exame_id ?n = Some (te_id e)"
      "observacoes ?n = Some (''Exame: '' @ ''Exame de Sangue'')"
      "data ?n = ''2025-07-15''" "hora_inicio ?n = ''09:00''" "status ?n = AGENDADA"
    using assms(3) by (simp_all add: nova_consulta_de_def truthy_def)
  have enr: "enriquecer_e_validar_agendamento ?db' (Some ?n) =
           Inr (Some \<lparr>ad_id = c_id ?n, ad_paciente_id = paciente_id ?n, ad_data = data ?n,
                      ad_hora_inicio = hora_inicio ?n, ad_status = status ?n,
                      ad_observacoes = ''Exame: '' @ ''Exame de Sangue'', ad_medico_id = None,
                      ad_tipo_exame_id = Some (te_id e),
                      nome_medico = ''N/A (Apenas Exame)'', descricao_exame = te_descricao e\<rparr>)"
    using n1(1,2) by_id n1(3) by (rule enriquecer_exame)
  have "agendar_exame_simples db agora nome_paciente ''111.222.333-44'' ''2025-07-15'' ''09:00''
          ''Exame de Sangue'' = (enriquecer_e_validar_agendamento ?db' (Some ?n), ?db')"
    using wl p assms(1) t by (simp add: agendar_exame_simples_def agendar_consulta_eq)
  with enr n1 assms(2) show ?thesis by simp
qed

theorem agendar_exame_simples_exemplo_witness:
  "\<exists>v db'. agendar_exame_simples (inserir_exemplos 0) 1 ''Carlos Silva'' ''111.222.333-44'' ''2025-07-15''
               ''09:00'' ''Exame de Sangue'' = (Inr (Some v), db')
           \<and> ad_tipo_exame_id v = Some 1 \<and> ad_medico_id v = None
           \<and> descricao_exame v = ''Exame de Sangue'' \<and> nome_medico v = ''N/A (Apenas Exame)''
           \<and> ad_data v = ''2025-07-15'' \<and> ad_hora_inicio v = ''09:00'' \<and> ad_status v = AGENDADA"
proof -
  have a: "find_one (\<lambda>d. regex_exato_i ''Exame de Sangue'' (te_descricao d))
             (tipos_exame_collection (inserir_exemplos 0)) = Some \<lparr>te_id = 1, te_descricao = ''Exame de Sangue''\<rparr>"
    by code_simp
  have b: "te_descricao \<lparr>te_id = 1, te_descricao = ''Exame de Sangue''\<rparr> = ''Exame de Sangue''" by simp
  have c: "te_id \<lparr>te_id = 1, te_descricao = ''Exame de Sangue''\<rparr> \<noteq> 0" by simp
  have d: "distinct (map te_id (tipos_exame_collection (inserir_exemplos 0)))"
    by (simp add: inserir_exemplos_def exemplo_tipos_exame_def)
  show ?thesis
    using agendar_exame_simples_exemplo [OF a b c d, of 1 "''Carlos Silva''"] by simp
qed

section \<open>Relative dates\<close>







section \<open>Availability\<close>

lemma cp_digit_char: "cp (digit_char n) = nat (48 + n mod 10)"
proof -
  have "0 \<le> n mod 10" "n mod 10 < 10" by simp_all
  then have "nat (48 + n mod 10) < 256" by linarith
  then show ?thesis by (simp add: cp_def digit_char_def)
qed

lemma is_digit_digit_char: "is_digit (digit_char n)"
proof -
  have "0 \<le> n mod 10" "n mod 10 < 10" by simp_all
  then show ?thesis unfolding is_digit_def cp_digit_char by linarith
qed

lemma dval_digit_char: "dval (digit_char n) = n mod 10"
proof -
  have "0 \<le> n mod 10" by simp
  then show ?thesis unfolding dval_def cp_digit_char by simp
qed

lemma digit_char_neq_colon: "digit_char n \<noteq> CHR '':''"
proof
  assume "digit_char n = CHR '':''"
  then have "cp (digit_char n) = cp CHR '':''" by simp
  moreover have "n mod 10 < 10" by simp
  ultimately show False unfolding cp_digit_char by (simp add: cp_def)
qed

lemma dois_digitos:
  fixes n :: int
  assumes "0 \<le> n" and "n < 100"
  shows "(n div 10) mod 10 * 10 + n mod 10 = n"
proof -
  have "n div 10 < 10" using assms by simp
  moreover have "0 \<le> n div 10" using assms by simp
  ultimately have "(n div 10) mod 10 = n div 10" by simp
  then show ?thesis by simp
qed

lemma re_two_fmt02:
  assumes "0 \<le> n" and "n < 100"
  shows "re_two ok (fmt02 n @ r) = (if ok n then Some (n, r) else None)"
  using dois_digitos [OF assms]
  by (simp add: fmt02_def is_digit_digit_char dval_digit_char)

lemma re_one_fmt02:
  "re_one ok (fmt02 n @ r) = (if ok ((n div 10) mod 10) then Some ((n div 10) mod 10, digit_char n # r) else None)"
  by (simp add: fmt02_def is_digit_digit_char dval_digit_char)

lemma strptime_strftime_HM:
  assumes "t < 1440"
  shows "strptime_HM (strftime_HM t) = Some t"
proof -
  let ?h = "int (t div 60)" and ?m = "int (t mod 60)"
  have h: "0 \<le> ?h" "?h < 100" "?h \<le> 23" using assms by simp_all
  have m: "0 \<le> ?m" "?m < 100" "?m \<le> 59" by simp_all
  have tm: "nat (?h * 60 + ?m) = t"
    by (simp add: nat_add_distrib nat_mult_distrib)
  have H: "re_H (strftime_HM t) =
             [(?h, '':'' @ fmt02 ?m), ((?h div 10) mod 10, digit_char ?h # '':'' @ fmt02 ?m)]"
    unfolding re_H_def strftime_HM_def
    using re_two_fmt02 [OF h(1,2), of "\<lambda>v. v \<le> 23" "'':'' @ fmt02 ?m"] h(3)
      re_one_fmt02 [of "\<lambda>v. True" ?h "'':'' @ fmt02 ?m"]
    by simp
  have M: "re_M (fmt02 ?m) = [(?m, []), ((?m div 10) mod 10, [digit_char ?m])]"
    unfolding re_M_def
    using re_two_fmt02 [OF m(1,2), of "\<lambda>v. v \<le> 59" "[]"] m(3)
      re_one_fmt02 [of "\<lambda>v. True" ?m "[]"]
    by simp
  show ?thesis
    unfolding strptime_HM_def H
    by (simp add: lit_def M digit_char_neq_colon tm)
qed

lemma slot_mod:
  fixes t :: nat
  assumes "t mod 1440 < 1080"
  shows "(t + 30) mod 1440 = t mod 1440 + 30"
proof -
  have "(t + 30) mod 1440 = (t mod 1440 + 30) mod 1440"
    by (simp add: mod_add_left_eq)
  also have "\<dots> = t mod 1440 + 30"
    using assms by (intro mod_less) linarith
  finally show ?thesis .
qed

lemma slots_livres_tempos:
  "\<exists>ts. slots_livres ocupados t = map slot_de ts
        \<and> (\<forall>(a, b)\<in>set ts. \<not> sobrepoe a b ocupados \<and> t mod 1440 \<le> a \<and> a < 1080 \<and> b = a + 30)
        \<and> sorted_wrt (\<lambda>(a, b) (a', b'). b \<le> a') ts"
proof (induction ocupados t rule: slots_livres.induct)
  case (1 ocupados t)
  show ?case
  proof (cases "t mod 1440 < 1080")
    case False
    then have "slots_livres ocupados t = []"
      by (subst slots_livres.simps) (simp del: slots_livres.simps)
    then show ?thesis
      by (intro exI [of _ "[]"]) simp
  next
    case True
    let ?a = "t mod 1440"
    let ?b = "?a + 30"
    have b: "(t + 30) mod 1440 = ?b"
      using True by (rule slot_mod)
    from "1.IH" [OF True refl refl]
    obtain ts where ts: "slots_livres ocupados (t + 30) = map slot_de ts"
        "\<forall>(a, b)\<in>set ts. \<not> sobrepoe a b ocupados \<and> (t + 30) mod 1440 \<le> a \<and> a < 1080 \<and> b = a + 30"
        "sorted_wrt (\<lambda>(a, b) (a', b'). b \<le> a') ts"
      by blast
    let ?hd = "if \<not> sobrepoe ?a ?b ocupados then [(?a, ?b)] else []"
    have eq: "slots_livres ocupados t = map slot_de (?hd @ ts)"
      using True
      by (subst slots_livres.simps) (simp add: Let_def slot_de_def b ts(1) del: slots_livres.simps)
    have later: "\<forall>(a, b)\<in>set ts. ?b \<le> a \<and> ?a \<le> a"
      using ts(2) b by auto
    have p2: "\<forall>(a, b)\<in>set (?hd @ ts). \<not> sobrepoe a b ocupados \<and> t mod 1440 \<le> a \<and> a < 1080 \<and> b = a + 30"
      using ts(2) later True by auto
    have p3: "sorted_wrt (\<lambda>(a, b) (a', b'). b \<le> a') (?hd @ ts)"
      using ts(3) later by (auto simp: sorted_wrt_append)
    show ?thesis
      by (intro exI [of _ "?hd @ ts"] conjI) (rule eq, rule p2, rule p3)
  qed
qed

lemma horario_ocupado_Inr:
  assumes "horario_ocupado dia c = Inr h"
  shows "\<exists>s. strptime_HM (hora_inicio c) = Some s \<and> h = (s, nat ((int s + duracao_minutos c) mod 1440))"
proof (cases "strptime_HM (hora_inicio c)")
  case None
  with assms show ?thesis by (simp add: horario_ocupado_def)
next
  case (Some s)
  define T where "T = (dia - 1) * 1440 + int s + duracao_minutos c"
  have "((dia - 1) * 1440 + (int s + duracao_minutos c)) mod 1440 = (int s + duracao_minutos c) mod 1440"
    by (rule mod_mult_self3)
  then have m: "T mod 1440 = (int s + duracao_minutos c) mod 1440"
    by (simp only: T_def add.assoc)
  have d: "horario_ocupado dia c =
             (if 0 \<le> T \<and> T < MAXORDINAL * 1440 then Inr (s, nat (T mod 1440)) else Inl OverflowError)"
    by (simp only: horario_ocupado_def Let_def Some option.case T_def)
  have "h = (s, nat (T mod 1440))"
  proof (cases "0 \<le> T \<and> T < MAXORDINAL * 1440")
    case True
    with d assms show ?thesis by simp
  next
    case False
    with d assms show ?thesis by simp
  qed
  then have "h = (s, nat ((int s + duracao_minutos c) mod 1440))"
    by (simp only: m)
  with Some show ?thesis by blast
qed

lemma horarios_ocupados_Cons_Inr:
  assumes "horarios_ocupados dia (c # cs) = Inr ocupados"
  shows "\<exists>h hs. horario_ocupado dia c = Inr h \<and> horarios_ocupados dia cs = Inr hs \<and> ocupados = h # hs"
proof (cases "horario_ocupado dia c")
  case (Inl e)
  with assms show ?thesis by simp
next
  case h: (Inr h)
  show ?thesis
  proof (cases "horarios_ocupados dia cs")
    case (Inl e)
    with assms h show ?thesis by simp
  next
    case (Inr hs)
    with assms h show ?thesis by simp
  qed
qed

lemma horarios_ocupados_Inr:
  "horarios_ocupados dia cs = Inr ocupados \<Longrightarrow>
     \<forall>c\<in>set cs. \<exists>s. strptime_HM (hora_inicio c) = Some s
                   \<and> (s, nat ((int s + duracao_minutos c) mod 1440)) \<in> set ocupados"
proof (induction cs arbitrary: ocupados)
  case Nil
  then show ?case by simp
next
  case (Cons c cs)
  from horarios_ocupados_Cons_Inr [OF Cons.prems] obtain h hs where h: "horario_ocupado dia c = Inr h"
      and hs: "horarios_ocupados dia cs = Inr hs" and o: "ocupados = h # hs"
    by blast
  from horario_ocupado_Inr [OF h] obtain s where s: "strptime_HM (hora_inicio c) = Some s"
      "h = (s, nat ((int s + duracao_minutos c) mod 1440))"
    by blast
  show ?case
  proof
    fix x
    assume "x \<in> set (c # cs)"
    then consider "x = c" | "x \<in> set cs" by auto
    then show "\<exists>s. strptime_HM (hora_inicio x) = Some s
                   \<and> (s, nat ((int s + duracao_minutos x) mod 1440)) \<in> set ocupados"
    proof cases
      case 1
      with s o show ?thesis by simp
    next
      case 2
      with Cons.IH [OF hs] o show ?thesis by fastforce
    qed
  qed
qed

lemma verificar_disponibilidade_medico_Inr:
  assumes "verificar_disponibilidade_medico db medico data_str = Inr sl"
  shows "\<exists>dia ocupados. strptime_Ymd data_str = Some dia
           \<and> horarios_ocupados dia (consultas_agendadas db medico data_str) = Inr ocupados
           \<and> sl = slots_livres ocupados 480"
proof (cases "strptime_Ymd data_str")
  case None
  with assms show ?thesis by (simp add: verificar_disponibilidade_medico_def)
next
  case (Some dia)
  show ?thesis
  proof (cases "horarios_ocupados dia (consultas_agendadas db medico data_str)")
    case (Inl e)
    with assms Some show ?thesis by (simp add: verificar_disponibilidade_medico_def)
  next
    case (Inr ocupados)
    with assms Some show ?thesis
      by (simp add: verificar_disponibilidade_medico_def del: slots_livres.simps)
  qed
qed

text \<open>
  Claim C4. Whenever \<open>verificar_disponibilidade_medico\<close> returns slots, their entries are
  the \<open>HH:MM\<close> forms of times \<open>(a, b)\<close> (reading the entries back with \<open>strptime\<close> gives
  these times) such that the slots are in chronological order, each one ending no later
  than the next one starts, and such that every appointment of that physician on that
  date with status \<open>AGENDADA\<close> has a start time \<open>s\<close> which, with the time of day \<open>e\<close> at
  which the appointment ends (\<open>s\<close> plus the duration, on the clock), satisfies
  \<open>b \<le> s\<close> or \<open>e \<le> a\<close> for every slot: no returned slot passes the overlap test
  \<open>a < e\<close> and \<open>b > s\<close>.
\<close>

theorem verificar_disponibilidade_medico_sem_sobreposicao:
  assumes "verificar_disponibilidade_medico db medico data_str = Inr sl"
  shows "\<exists>ts. map (\<lambda>x. (strptime_HM (slot_hora_inicio x), strptime_HM (slot_hora_fim x))) sl
               = map (\<lambda>(a, b). (Some a, Some b)) ts
           \<and> sorted_wrt (\<lambda>(a, b) (a', b'). b \<le> a') ts
           \<and> (\<forall>c\<in>set (consultas_collection db).
                 medico_id c = Some medico \<and> data c = data_str \<and> status c = AGENDADA \<longrightarrow>
                 (\<exists>s. strptime_HM (hora_inicio c) = Some s \<and>
                      (\<forall>(a, b)\<in>set ts. b \<le> s \<or> nat ((int s + duracao_minutos c) mod 1440) \<le> a)))"
proof -
  from verificar_disponibilidade_medico_Inr [OF assms]
  obtain dia ocupados where oc: "horarios_ocupados dia (consultas_agendadas db medico data_str) = Inr ocupados"
      and sl: "sl = slots_livres ocupados 480"
    by blast
  from slots_livres_tempos [of ocupados 480]
  obtain ts where ts: "slots_livres ocupados 480 = map slot_de ts"
      "\<forall>(a, b)\<in>set ts. \<not> sobrepoe a b ocupados \<and> 480 mod 1440 \<le> a \<and> a < 1080 \<and> b = a + 30"
      "sorted_wrt (\<lambda>(a, b) (a', b'). b \<le> a') ts"
    by blast
  have rt: "(strptime_HM (slot_hora_inicio (slot_de x)), strptime_HM (slot_hora_fim (slot_de x)))
              = (case x of (a, b) \<Rightarrow> (Some a, Some b))" if "x \<in> set ts" for x
  proof -
    obtain a b where x: "x = (a, b)" by (cases x)
    with ts(2) that have "a < 1440" "b < 1440" by auto
    then show ?thesis
      by (simp add: x slot_de_def strptime_strftime_HM)
  qed
  have p1: "map (\<lambda>x. (strptime_HM (slot_hora_inicio x), strptime_HM (slot_hora_fim x))) sl
               = map (\<lambda>(a, b). (Some a, Some b)) ts"
    unfolding sl ts(1) using rt by (simp add: comp_def)
  have p3: "\<forall>c\<in>set (consultas_collection db).
                 medico_id c = Some medico \<and> data c = data_str \<and> status c = AGENDADA \<longrightarrow>
                 (\<exists>s. strptime_HM (hora_inicio c) = Some s \<and>
                      (\<forall>(a, b)\<in>set ts. b \<le> s \<or> nat ((int s + duracao_minutos c) mod 1440) \<le> a))"
  proof (intro ballI impI)
    fix c
    assume c: "c \<in> set (consultas_collection db)"
      and f: "medico_id c = Some medico \<and> data c = data_str \<and> status c = AGENDADA"
    then have "c \<in> set (consultas_agendadas db medico data_str)"
      by (simp add: consultas_agendadas_def)
    with horarios_ocupados_Inr [OF oc]
    obtain s where s: "strptime_HM (hora_inicio c) = Some s"
        "(s, nat ((int s + duracao_minutos c) mod 1440)) \<in> set ocupados"
      by blast
    have "b \<le> s \<or> nat ((int s + duracao_minutos c) mod 1440) \<le> a" if ab: "(a, b) \<in> set ts" for a b
    proof -
      from ts(2) ab have "\<not> sobrepoe a b ocupados" by auto
      with s(2) have "\<not> (a < nat ((int s + duracao_minutos c) mod 1440) \<and> b > s)"
        unfolding sobrepoe_def list_ex_iff by fastforce
      then show ?thesis
        by linarith
    qed
    then have "\<forall>(a, b)\<in>set ts. b \<le> s \<or> nat ((int s + duracao_minutos c) mod 1440) \<le> a"
      by auto
    with s(1) show "\<exists>s. strptime_HM (hora_inicio c) = Some s \<and>
                      (\<forall>(a, b)\<in>set ts. b \<le> s \<or> nat ((int s + duracao_minutos c) mod 1440) \<le> a)"
      by blast
  qed
  show ?thesis
  proof (intro exI [of _ ts] conjI)
    show "map (\<lambda>x. (strptime_HM (slot_hora_inicio x), strptime_HM (slot_hora_fim x))) sl
               = map (\<lambda>(a, b). (Some a, Some b)) ts"
      by (rule p1)
    show "sorted_wrt (\<lambda>(a, b) (a', b'). b \<le> a') ts"
      by (rule ts(3))
    show "\<forall>c\<in>set (consultas_collection db).
                 medico_id c = Some medico \<and> data c = data_str \<and> status c = AGENDADA \<longrightarrow>
                 (\<exists>s. strptime_HM (hora_inicio c) = Some s \<and>
                      (\<forall>(a, b)\<in>set ts. b \<le> s \<or> nat ((int s + duracao_minutos c) mod 1440) \<le> a))"
      by (rule p3)
  qed
qed


theorem verificar_disponibilidade_medico_sem_sobreposicao_witness:
  "verificar_disponibilidade_medico (inserir_exemplos 0) 42 ''2025-06-10'' = Inr
     [\<lparr>slot_hora_inicio = ''08:00'', slot_hora_fim = ''08:30''\<rparr>,
      \<lparr>slot_hora_inicio = ''08:30'', slot_hora_fim = ''09:00''\<rparr>,
      \<lparr>slot_hora_inicio = ''09:00'', slot_hora_fim = ''09:30''\<rparr>,
      \<lparr>slot_hora_inicio = ''09:30'', slot_hora_fim = ''10:00''\<rparr>,
      \<lparr>slot_hora_inicio = ''10:00'', slot_hora_fim = ''10:30''\<rparr>,
      \<lparr>slot_hora_inicio = ''10:30'', slot_hora_fim = ''11:00''\<rparr>,
      \<lparr>slot_hora_inicio = ''11:00'', slot_hora_fim = ''11:30''\<rparr>,
      \<lparr>slot_hora_inicio = ''11:30'', slot_hora_fim = ''12:00''\<rparr>,
      \<lparr>slot_hora_inicio = ''12:00'', slot_hora_fim = ''12:30''\<rparr>,
      \<lparr>slot_hora_inicio = ''12:30'', slot_hora_fim = ''13:00''\<rparr>,
      \<lparr>slot_hora_inicio = ''13:00'', slot_hora_fim = ''13:30''\<rparr>,
      \<lparr>slot_hora_inicio = ''13:30'', slot_hora_fim = ''14:00''\<rparr>,
      \<lparr>slot_hora_inicio = ''14:30'', slot_hora_fim = ''15:00''\<rparr>,
      \<lparr>slot_hora_inicio = ''15:00'', slot_hora_fim = ''15:30''\<rparr>,
      \<lparr>slot_hora_inicio = ''15:30'', slot_hora_fim = ''16:00''\<rparr>,
      \<lparr>slot_hora_inicio = ''16:00'', slot_hora_fim = ''16:30''\<rparr>,
      \<lparr>slot_hora_inicio = ''16:30'', slot_hora_fim = ''17:00''\<rparr>,
      \<lparr>slot_hora_inicio = ''17:00'', slot_hora_fim = ''17:30''\<rparr>,
      \<lparr>slot_hora_inicio = ''17:30'', slot_hora_fim = ''18:00''\<rparr>]
   \<and> (\<exists>ts. map (\<lambda>x. (strptime_HM (slot_hora_inicio x), strptime_HM (slot_hora_fim x)))
     [\<lparr>slot_hora_inicio = ''08:00'', slot_hora_fim = ''08:30''\<rparr>,
      \<lparr>slot_hora_inicio = ''08:30'', slot_hora_fim = ''09:00''\<rparr>,
      \<lparr>slot_hora_inicio = ''09:00'', slot_hora_fim = ''09:30''\<rparr>,
      \<lparr>slot_hora_inicio = ''09:30'', slot_hora_fim = ''10:00''\<rparr>,
      \<lparr>slot_hora_inicio = ''10:00'', slot_hora_fim = ''10:30''\<rparr>,
      \<lparr>slot_hora_inicio = ''10:30'', slot_hora_fim = ''11:00''\<rparr>,
      \<lparr>slot_hora_inicio = ''11:00'', slot_hora_fim = ''11:30''\<rparr>,
      \<lparr>slot_hora_inicio = ''11:30'', slot_hora_fim = ''12:00''\<rparr>,
      \<lparr>slot_hora_inicio = ''12:00'', slot_hora_fim = ''12:30''\<rparr>,
      \<lparr>slot_hora_inicio = ''12:30'', slot_hora_fim = ''13:00''\<rparr>,
      \<lparr>slot_hora_inicio = ''13:00'', slot_hora_fim = ''13:30''\<rparr>,
      \<lparr>slot_hora_inicio = ''13:30'', slot_hora_fim = ''14:00''\<rparr>,
      \<lparr>slot_hora_inicio = ''14:30'', slot_hora_fim = ''15:00''\<rparr>,
      \<lparr>slot_hora_inicio = ''15:00'', slot_hora_fim = ''15:30''\<rparr>,
      \<lparr>slot_hora_inicio = ''15:30'', slot_hora_fim = ''16:00''\<rparr>,
      \<lparr>slot_hora_inicio = ''16:00'', slot_hora_fim = ''16:30''\<rparr>,
      \<lparr>slot_hora_inicio = ''16:30'', slot_hora_fim = ''17:00''\<rparr>,
      \<lparr>slot_hora_inicio = ''17:00'', slot_hora_fim = ''17:30''\<rparr>,
      \<lparr>slot_hora_inicio = ''17:30'', slot_hora_fim = ''18:00''\<rparr>]
        = map (\<lambda>(a, b). (Some a, Some b)) ts
      \<and> sorted_wrt (\<lambda>(a, b) (a', b'). b \<le> a') ts
      \<and> (840, 870) \<notin> set ts)"
proof -
  have v: "verificar_disponibilidade_medico (inserir_exemplos 0) 42 ''2025-06-10'' = Inr
     [\<lparr>slot_hora_inicio = ''08:00'', slot_hora_fim = ''08:30''\<rparr>,
      \<lparr>slot_hora_inicio = ''08:30'', slot_hora_fim = ''09:00''\<rparr>,
      \<lparr>slot_hora_inicio = ''09:00'', slot_hora_fim = ''09:30''\<rparr>,
      \<lparr>slot_hora_inicio = ''09:30'', slot_hora_fim = ''10:00''\<rparr>,
      \<lparr>slot_hora_inicio = ''10:00'', slot_hora_fim = ''10:30''\<rparr>,
      \<lparr>slot_hora_inicio = ''10:30'', slot_hora_fim = ''11:00''\<rparr>,
      \<lparr>slot_hora_inicio = ''11:00'', slot_hora_fim = ''11:30''\<rparr>,
      \<lparr>slot_hora_inicio = ''11:30'', slot_hora_fim = ''12:00''\<rparr>,
      \<lparr>slot_hora_inicio = ''12:00'', slot_hora_fim = ''12:30''\<rparr>,
      \<lparr>slot_hora_inicio = ''12:30'', slot_hora_fim = ''13:00''\<rparr>,
      \<lparr>slot_hora_inicio = ''13:00'', slot_hora_fim = ''13:30''\<rparr>,
      \<lparr>slot_hora_inicio = ''13:30'', slot_hora_fim = ''14:00''\<rparr>,
      \<lparr>slot_hora_inicio = ''14:30'', slot_hora_fim = ''15:00''\<rparr>,
      \<lparr>slot_hora_inicio = ''15:00'', slot_hora_fim = ''15:30''\<rparr>,
      \<lparr>slot_hora_inicio = ''15:30'', slot_hora_fim = ''16:00''\<rparr>,
      \<lparr>slot_hora_inicio = ''16:00'', slot_hora_fim = ''16:30''\<rparr>,
      \<lparr>slot_hora_inicio = ''16:30'', slot_hora_fim = ''17:00''\<rparr>,
      \<lparr>slot_hora_inicio = ''17:00'', slot_hora_fim = ''17:30''\<rparr>,
      \<lparr>slot_hora_inicio = ''17:30'', slot_hora_fim = ''18:00''\<rparr>]"
    by code_simp
  from verificar_disponibilidade_medico_sem_sobreposicao [OF v]
  obtain ts where ts: "map (\<lambda>x. (strptime_HM (slot_hora_inicio x), strptime_HM (slot_hora_fim x)))
     [\<lparr>slot_hora_inicio = ''08:00'', slot_hora_fim = ''08:30''\<rparr>,
      \<lparr>slot_hora_inicio = ''08:30'', slot_hora_fim = ''09:00''\<rparr>,
      \<lparr>slot_hora_inicio = ''09:00'', slot_hora_fim = ''09:30''\<rparr>,
      \<lparr>slot_hora_inicio = ''09:30'', slot_hora_fim = ''10:00''\<rparr>,
      \<lparr>slot_hora_inicio = ''10:00'', slot_hora_fim = ''10:30''\<rparr>,
      \<lparr>slot_hora_inicio = ''10:30'', slot_hora_fim = ''11:00''\<rparr>,
      \<lparr>slot_hora_inicio = ''11:00'', slot_hora_fim = ''11:30''\<rparr>,
      \<lparr>slot_hora_inicio = ''11:30'', slot_hora_fim = ''12:00''\<rparr>,
      \<lparr>slot_hora_inicio = ''12:00'', slot_hora_fim = ''12:30''\<rparr>,
      \<lparr>slot_hora_inicio = ''12:30'', slot_hora_fim = ''13:00''\<rparr>,
      \<lparr>slot_hora_inicio = ''13:00'', slot_hora_fim = ''13:30''\<rparr>,
      \<lparr>slot_hora_inicio = ''13:30'', slot_hora_fim = ''14:00''\<rparr>,
      \<lparr>slot_hora_inicio = ''14:30'', slot_hora_fim = ''15:00''\<rparr>,
      \<lparr>slot_hora_inicio = ''15:00'', slot_hora_fim = ''15:30''\<rparr>,
      \<lparr>slot_hora_inicio = ''15:30'', slot_hora_fim = ''16:00''\<rparr>,
      \<lparr>slot_hora_inicio = ''16:00'', slot_hora_fim = ''16:30''\<rparr>,
      \<lparr>slot_hora_inicio = ''16:30'', slot_hora_fim = ''17:00''\<rparr>,
      \<lparr>slot_hora_inicio = ''17:00'', slot_hora_fim = ''17:30''\<rparr>,
      \<lparr>slot_hora_inicio = ''17:30'', slot_hora_fim = ''18:00''\<rparr>]
        = map (\<lambda>(a, b). (Some a, Some b)) ts"
      "sorted_wrt (\<lambda>(a, b) (a', b'). b \<le> a') ts"
      "\<forall>c\<in>set (consultas_collection (inserir_exemplos 0)).
         medico_id c = Some 42 \<and> data c = ''2025-06-10'' \<and> status c = AGENDADA \<longrightarrow>
         (\<exists>s. strptime_HM (hora_inicio c) = Some s \<and>
              (\<forall>(a, b)\<in>set ts. b \<le> s \<or> nat ((int s + duracao_minutos c) mod 1440) \<le> a))"
    by blast
  have m: "exemplo_consulta 0 \<in> set (consultas_collection (inserir_exemplos 0))"
    by (simp add: inserir_exemplos_def)
  have f: "medico_id (exemplo_consulta 0) = Some 42 \<and> data (exemplo_consulta 0) = ''2025-06-10''
      \<and> status (exemplo_consulta 0) = AGENDADA"
    by (simp add: exemplo_consulta_def)
  have h: "strptime_HM (hora_inicio (exemplo_consulta 0)) = Some 840"
    by code_simp
  have d: "duracao_minutos (exemplo_consulta 0) = 30"
    by (simp add: exemplo_consulta_def)
  from ts(3) m f obtain s where s: "strptime_HM (hora_inicio (exemplo_consulta 0)) = Some s"
      "\<forall>(a, b)\<in>set ts. b \<le> s \<or> nat ((int s + duracao_minutos (exemplo_consulta 0)) mod 1440) \<le> a"
    by blast
  from s(1) h have s840: "s = 840" by simp
  have n: "(840, 870) \<notin> set ts"
  proof
    assume "(840, 870) \<in> set ts"
    with s(2) have "(870::nat) \<le> s \<or> nat ((int s + duracao_minutos (exemplo_consulta 0)) mod 1440) \<le> 840"
      by fastforce
    then show False
      by (simp add: s840 d)
  qed
  from v ts(1) ts(2) n show ?thesis
    by blast
qed

text \<open>
  Claim C5. For every physician and every date string accepted by \<open>strptime\<close> with
  \<open>%Y-%m-%d\<close>, when no appointment of that physician on that date has status \<open>AGENDADA\<close>,
  \<open>verificar_disponibilidade_medico\<close> returns exactly the 20 slots of 30 minutes
  \<open>08:00-08:30\<close>, \<open>08:30-09:00\<close>, ..., \<open>17:30-18:00\<close>, each starting where the one before
  ends.
\<close>

theorem verificar_disponibilidade_medico_dia_livre:
  assumes "strptime_Ymd data_str = Some dia"
    and "\<forall>c\<in>set (consultas_collection db).
           \<not> (medico_id c = Some medico \<and> data c = data_str \<and> status c = AGENDADA)"
  shows "verificar_disponibilidade_medico db medico data_str = Inr
     [\<lparr>slot_hora_inicio = ''08:00'', slot_hora_fim = ''08:30''\<rparr>,
      \<lparr>slot_hora_inicio = ''08:30'', slot_hora_fim = ''09:00''\<rparr>,
      \<lparr>slot_hora_inicio = ''09:00'', slot_hora_fim = ''09:30''\<rparr>,
      \<lparr>slot_hora_inicio = ''09:30'', slot_hora_fim = ''10:00''\<rparr>,
      \<lparr>slot_hora_inicio = ''10:00'', slot_hora_fim = ''10:30''\<rparr>,
      \<lparr>slot_hora_inicio = ''10:30'', slot_hora_fim = ''11:00''\<rparr>,
      \<lparr>slot_hora_inicio = ''11:00'', slot_hora_fim = ''11:30''\<rparr>,
      \<lparr>slot_hora_inicio = ''11:30'', slot_hora_fim = ''12:00''\<rparr>,
      \<lparr>slot_hora_inicio = ''12:00'', slot_hora_fim = ''12:30''\<rparr>,
      \<lparr>slot_hora_inicio = ''12:30'', slot_hora_fim = ''13:00''\<rparr>,
      \<lparr>slot_hora_inicio = ''13:00'', slot_hora_fim = ''13:30''\<rparr>,
      \<lparr>slot_hora_inicio = ''13:30'', slot_hora_fim = ''14:00''\<rparr>,
      \<lparr>slot_hora_inicio = ''14:00'', slot_hora_fim = ''14:30''\<rparr>,
      \<lparr>slot_hora_inicio = ''14:30'', slot_hora_fim = ''15:00''\<rparr>,
      \<lparr>slot_hora_inicio = ''15:00'', slot_hora_fim = ''15:30''\<rparr>,
      \<lparr>slot_hora_inicio = ''15:30'', slot_hora_fim = ''16:00''\<rparr>,
      \<lparr>slot_hora_inicio = ''16:00'', slot_hora_fim = ''16:30''\<rparr>,
      \<lparr>slot_hora_inicio = ''16:30'', slot_hora_fim = ''17:00''\<rparr>,
      \<lparr>slot_hora_inicio = ''17:00'', slot_hora_fim = ''17:30''\<rparr>,
      \<lparr>slot_hora_inicio = ''17:30'', slot_hora_fim = ''18:00''\<rparr>]"
proof -
  have a: "consultas_agendadas db medico data_str = []"
    unfolding consultas_agendadas_def filter_empty_conv using assms(2) by blast
  have s: "slots_livres [] 480 =
     [\<lparr>slot_hora_inicio = ''08:00'', slot_hora_fim = ''08:30''\<rparr>,
      \<lparr>slot_hora_inicio = ''08:30'', slot_hora_fim = ''09:00''\<rparr>,
      \<lparr>slot_hora_inicio = ''09:00'', slot_hora_fim = ''09:30''\<rparr>,
      \<lparr>slot_hora_inicio = ''09:30'', slot_hora_fim = ''10:00''\<rparr>,
      \<lparr>slot_hora_inicio = ''10:00'', slot_hora_fim = ''10:30''\<rparr>,
      \<lparr>slot_hora_inicio = ''10:30'', slot_hora_fim = ''11:00''\<rparr>,
      \<lparr>slot_hora_inicio = ''11:00'', slot_hora_fim = ''11:30''\<rparr>,
      \<lparr>slot_hora_inicio = ''11:30'', slot_hora_fim = ''12:00''\<rparr>,
      \<lparr>slot_hora_inicio = ''12:00'', slot_hora_fim = ''12:30''\<rparr>,
      \<lparr>slot_hora_inicio = ''12:30'', slot_hora_fim = ''13:00''\<rparr>,
      \<lparr>slot_hora_inicio = ''13:00'', slot_hora_fim = ''13:30''\<rparr>,
      \<lparr>slot_hora_inicio = ''13:30'', slot_hora_fim = ''14:00''\<rparr>,
      \<lparr>slot_hora_inicio = ''14:00'', slot_hora_fim = ''14:30''\<rparr>,
      \<lparr>slot_hora_inicio = ''14:30'', slot_hora_fim = ''15:00''\<rparr>,
      \<lparr>slot_hora_inicio = ''15:00'', slot_hora_fim = ''15:30''\<rparr>,
      \<lparr>slot_hora_inicio = ''15:30'', slot_hora_fim = ''16:00''\<rparr>,
      \<lparr>slot_hora_inicio = ''16:00'', slot_hora_fim = ''16:30''\<rparr>,
      \<lparr>slot_hora_inicio = ''16:30'', slot_hora_fim = ''17:00''\<rparr>,
      \<lparr>slot_hora_inicio = ''17:00'', slot_hora_fim = ''17:30''\<rparr>,
      \<lparr>slot_hora_inicio = ''17:30'', slot_hora_fim = ''18:00''\<rparr>]"
    by code_simp
  show ?thesis
    by (simp only: verificar_disponibilidade_medico_def assms(1) a horarios_ocupados.simps
          option.case sum.case s)
qed

theorem verificar_disponibilidade_medico_dia_livre_witness:
  "verificar_disponibilidade_medico (inserir_exemplos 0) 58 ''2025-06-10'' = Inr
     [\<lparr>slot_hora_inicio = ''08:00'', slot_hora_fim = ''08:30''\<rparr>,
      \<lparr>slot_hora_inicio = ''08:30'', slot_hora_fim = ''09:00''\<rparr>,
      \<lparr>slot_hora_inicio = ''09:00'', slot_hora_fim = ''09:30''\<rparr>,
      \<lparr>slot_hora_inicio = ''09:30'', slot_hora_fim = ''10:00''\<rparr>,
      \<lparr>slot_hora_inicio = ''10:00'', slot_hora_fim = ''10:30''\<rparr>,
      \<lparr>slot_hora_inicio = ''10:30'', slot_hora_fim = ''11:00''\<rparr>,
      \<lparr>slot_hora_inicio = ''11:00'', slot_hora_fim = ''11:30''\<rparr>,
      \<lparr>slot_hora_inicio = ''11:30'', slot_hora_fim = ''12:00''\<rparr>,
      \<lparr>slot_hora_inicio = ''12:00'', slot_hora_fim = ''12:30''\<rparr>,
      \<lparr>slot_hora_inicio = ''12:30'', slot_hora_fim = ''13:00''\<rparr>,
      \<lparr>slot_hora_inicio = ''13:00'', slot_hora_fim = ''13:30''\<rparr>,
      \<lparr>slot_hora_inicio = ''13:30'', slot_hora_fim = ''14:00''\<rparr>,
      \<lparr>slot_hora_inicio = ''14:00'', slot_hora_fim = ''14:30''\<rparr>,
      \<lparr>slot_hora_inicio = ''14:30'', slot_hora_fim = ''15:00''\<rparr>,
      \<lparr>slot_hora_inicio = ''15:00'', slot_hora_fim = ''15:30''\<rparr>,
      \<lparr>slot_hora_inicio = ''15:30'', slot_hora_fim = ''16:00''\<rparr>,
      \<lparr>slot_hora_inicio = ''16:00'', slot_hora_fim = ''16:30''\<rparr>,
      \<lparr>slot_hora_inicio = ''16:30'', slot_hora_fim = ''17:00''\<rparr>,
      \<lparr>slot_hora_inicio = ''17:00'', slot_hora_fim = ''17:30''\<rparr>,
      \<lparr>slot_hora_inicio = ''17:30'', slot_hora_fim = ''18:00''\<rparr>]"
proof (rule verificar_disponibilidade_medico_dia_livre [where dia = 739412])
  show "strptime_Ymd ''2025-06-10'' = Some 739412"
    by code_simp
  show "\<forall>c\<in>set (consultas_collection (inserir_exemplos 0)).
           \<not> (medico_id c = Some 58 \<and> data c = ''2025-06-10'' \<and> status c = AGENDADA)"
    by (simp add: inserir_exemplos_def exemplo_consulta_def)
qed

end
